theory Spec2Isabelle
  imports Complex_Main "HOL-Library.Multiset"
begin

section \<open>Tensor values\<close>

text \<open>
  The loss of \<^verbatim>\<open>code/loss/ordinal_losses.py\<close> is computed on float32 tensors.
  The development works in exact arithmetic: a tensor entry is a real number or one of
  the three special values of IEEE arithmetic, with the IEEE rules for them
  (\<open>0 * inf\<close> and \<open>inf - inf\<close> are NaN, \<open>log 0\<close> is \<open>-inf\<close>, a NaN operand gives
  NaN), but for the quotient by zero, which follows the runtime's kernel. Rounding,
  overflow and underflow of finite results (the real exponential is never 0, the float32
  one is for arguments below about -104) and the sign of zero are not modelled, so
  nothing here says when a float32 loss is finite. The entries of the input tensors are
  real numbers.
\<close>

datatype fval = Fin real | PInf | NInf | NaN

instantiation fval :: "{zero, one, plus, uminus, minus, times}"
begin

definition zero_fval :: fval where
  "zero_fval = Fin 0"

definition one_fval :: fval where
  "one_fval = Fin 1"

fun plus_fval :: "fval \<Rightarrow> fval \<Rightarrow> fval" where
  "plus_fval (Fin a) (Fin b) = Fin (a + b)"
| "plus_fval NaN _ = NaN"
| "plus_fval _ NaN = NaN"
| "plus_fval PInf NInf = NaN"
| "plus_fval NInf PInf = NaN"
| "plus_fval PInf _ = PInf"
| "plus_fval _ PInf = PInf"
| "plus_fval NInf _ = NInf"
| "plus_fval _ NInf = NInf"

fun uminus_fval :: "fval \<Rightarrow> fval" where
  "uminus_fval (Fin a) = Fin (- a)"
| "uminus_fval PInf = NInf"
| "uminus_fval NInf = PInf"
| "uminus_fval NaN = NaN"

definition minus_fval :: "fval \<Rightarrow> fval \<Rightarrow> fval" where
  "minus_fval x y = x + (- y)"

fun times_fval :: "fval \<Rightarrow> fval \<Rightarrow> fval" where
  "times_fval (Fin a) (Fin b) = Fin (a * b)"
| "times_fval NaN _ = NaN"
| "times_fval _ NaN = NaN"
| "times_fval (Fin a) PInf = (if a = 0 then NaN else if 0 < a then PInf else NInf)"
| "times_fval (Fin a) NInf = (if a = 0 then NaN else if 0 < a then NInf else PInf)"
| "times_fval PInf (Fin b) = (if b = 0 then NaN else if 0 < b then PInf else NInf)"
| "times_fval NInf (Fin b) = (if b = 0 then NaN else if 0 < b then NInf else PInf)"
| "times_fval PInf PInf = PInf"
| "times_fval NInf NInf = PInf"
| "times_fval PInf NInf = NInf"
| "times_fval NInf PInf = NInf"

instance ..

end

instance fval :: comm_monoid_add
proof
  fix x y z :: fval
  show "x + y = y + x"
    by (cases x; cases y; simp)
  show "0 + x = x"
    by (cases x; simp add: zero_fval_def)
  show "(x + y) + z = x + (y + z)"
    by (cases x; cases y; cases z; simp)
qed

text \<open>
  Division, as the runtime's kernel computes it. A divisor that is zero (taken as \<open>+0\<close>)
  is looked at first: the quotient is NaN for a zero dividend, \<open>+inf\<close> for a dividend
  above zero and \<open>-inf\<close> for every other one, a NaN among them. Any other quotient is
  the IEEE one.
\<close>

fun fdiv :: "fval \<Rightarrow> fval \<Rightarrow> fval" where
  "fdiv (Fin a) (Fin b) =
     (if b \<noteq> 0 then Fin (a / b)
      else if a = 0 then NaN else if 0 < a then PInf else NInf)"
| "fdiv PInf (Fin b) = (if 0 \<le> b then PInf else NInf)"
| "fdiv NInf (Fin b) = (if 0 \<le> b then NInf else PInf)"
| "fdiv NaN (Fin b) = (if b = 0 then NInf else NaN)"
| "fdiv (Fin a) PInf = Fin 0"
| "fdiv (Fin a) NInf = Fin 0"
| "fdiv _ _ = NaN"

fun fexp :: "fval \<Rightarrow> fval" where
  "fexp (Fin a) = Fin (exp a)"
| "fexp PInf = PInf"
| "fexp NInf = Fin 0"
| "fexp NaN = NaN"

fun flog :: "fval \<Rightarrow> fval" where
  "flog (Fin a) = (if 0 < a then Fin (ln a) else if a = 0 then NInf else NaN)"
| "flog PInf = PInf"
| "flog NInf = NaN"
| "flog NaN = NaN"

text \<open>The maximum of two entries; a NaN wins, as it does in the runtime's reduction.\<close>

fun fmax :: "fval \<Rightarrow> fval \<Rightarrow> fval" where
  "fmax (Fin a) (Fin b) = Fin (max a b)"
| "fmax NaN _ = NaN"
| "fmax _ NaN = NaN"
| "fmax PInf _ = PInf"
| "fmax _ PInf = PInf"
| "fmax NInf y = y"
| "fmax x NInf = x"

definition is_finite :: "fval \<Rightarrow> bool" where
  "is_finite x = (case x of Fin _ \<Rightarrow> True | _ \<Rightarrow> False)"

definition of_bool_f :: "bool \<Rightarrow> fval" where
  "of_bool_f b = (if b then Fin 1 else Fin 0)"

section \<open>Tensors\<close>

text \<open>
  An input tensor of any rank is its shape and its row-major buffer, read by offset.
  A rank-2 tensor inside the computation is a \<open>mat\<close>: its two extents and its entries
  by row and column. Only the entries inside the shape mean anything. A rank-1 tensor
  of length \<open>n\<close> is kept as the \<open>1 \<times> n\<close> matrix that broadcasting makes of it.
\<close>

record 'a tensor =
  shape :: "nat list"
  flat :: "nat \<Rightarrow> 'a"

record 'a mat =
  nrows :: nat
  ncols :: nat
  entry :: "nat \<Rightarrow> nat \<Rightarrow> 'a"

text \<open>Features after line 39: \<open>[bsz, n_views, dim]\<close>, entry \<open>[b, v, k]\<close> at offset
  \<open>(b * n_views + v) * dim + k\<close> of the buffer.\<close>

record features3 =
  bsz :: nat
  n_views :: nat
  emb_dim :: nat
  at3 :: "nat \<Rightarrow> nat \<Rightarrow> nat \<Rightarrow> real"

section \<open>Exceptions and the log of tensor operations\<close>

text \<open>
  \<open>construct\<close> either returns the loss or raises. \<open>ValueError\<close> carries the message of
  the \<^verbatim>\<open>raise\<close> statement; \<open>UnboundLocalError\<close> names the local variable read before
  assignment; \<open>ZeroDivisionError\<close> is Python's float division by zero;
  \<open>TensorOpError\<close> is an exception raised inside the array runtime (shapes that do not
  broadcast or multiply, a reduction over an empty axis, a concatenation of nothing).
  The cell is run eagerly, statement by statement.

  A run also yields the list of tensor operations it executed, in order, so that
  "raised before any tensor operation" can be stated.
\<close>

datatype py_error =
  ValueError string
| UnboundLocalError string
| ZeroDivisionError
| IndexError
| TensorOpError string

datatype tensor_op =
  OpView | OpEye | OpT | OpEqual | OpFloat | OpTile | OpSub | OpAbs | OpUnbind | OpCat
| OpIndex | OpMatmul | OpDiv | OpMax | OpMul | OpAdd | OpExp | OpLog | OpSum | OpMean

type_synonym 'a run = "tensor_op list \<times> (py_error + 'a)"

definition ret :: "'a \<Rightarrow> 'a run" where
  "ret x = ([], Inr x)"

definition raise :: "py_error \<Rightarrow> 'a run" where
  "raise e = ([], Inl e)"

definition exec :: "tensor_op \<Rightarrow> 'a \<Rightarrow> 'a run" where
  "exec p x = ([p], Inr x)"

definition logged :: "tensor_op list \<Rightarrow> 'a run \<Rightarrow> 'a run" where
  "logged ps r = (ps @ fst r, snd r)"

definition seq :: "'a run \<Rightarrow> ('a \<Rightarrow> 'b run) \<Rightarrow> 'b run" where
  "seq m k = (case snd m of Inl e \<Rightarrow> (fst m, Inl e) | Inr x \<Rightarrow> logged (fst m) (k x))"

definition ops :: "'a run \<Rightarrow> tensor_op list" where
  "ops r = fst r"

definition outcome :: "'a run \<Rightarrow> py_error + 'a" where
  "outcome r = snd r"

section \<open>The runtime's primitives\<close>

definition prod_shape :: "nat list \<Rightarrow> nat" where
  "prod_shape s = foldr (*) s 1"

text \<open>\<^verbatim>\<open>O.eye(n, m)\<close>.\<close>

definition eye :: "nat \<Rightarrow> nat \<Rightarrow> fval mat run" where
  "eye n m = exec OpEye \<lparr>nrows = n, ncols = m, entry = (\<lambda>i j. if i = j then Fin 1 else Fin 0)\<rparr>"

text \<open>\<^verbatim>\<open>x.T\<close>.\<close>

definition transpose_t :: "'a mat \<Rightarrow> 'a mat run" where
  "transpose_t a = exec OpT \<lparr>nrows = ncols a, ncols = nrows a, entry = (\<lambda>i j. entry a j i)\<rparr>"

text \<open>\<^verbatim>\<open>x.tile((r, c))\<close> on a rank-2 tensor.\<close>

definition tile :: "'a mat \<Rightarrow> nat \<Rightarrow> nat \<Rightarrow> 'a mat run" where
  "tile a r c = exec OpTile
     \<lparr>nrows = r * nrows a, ncols = c * ncols a,
      entry = (\<lambda>i j. entry a (i mod nrows a) (j mod ncols a))\<rparr>"

text \<open>An elementwise operation with one operand, or with a Python scalar.\<close>

definition pointwise :: "tensor_op \<Rightarrow> ('a \<Rightarrow> 'b) \<Rightarrow> 'a mat \<Rightarrow> 'b mat run" where
  "pointwise p f a = exec p \<lparr>nrows = nrows a, ncols = ncols a, entry = (\<lambda>i j. f (entry a i j))\<rparr>"

text \<open>
  An elementwise operation on two rank-2 tensors, with broadcasting: the extents of an
  axis must agree or one of them be 1, and the operand of extent 1 is read at index 0.
\<close>

definition bc_extent :: "nat \<Rightarrow> nat \<Rightarrow> nat option" where
  "bc_extent n m = (if n = m then Some n else if n = 1 then Some m else if m = 1 then Some n else None)"

definition bc_index :: "nat \<Rightarrow> nat \<Rightarrow> nat \<Rightarrow> nat" where
  "bc_index n m i = (if n = 1 \<and> m \<noteq> 1 then 0 else i)"

definition broadcast2 :: "tensor_op \<Rightarrow> ('a \<Rightarrow> 'b \<Rightarrow> 'c) \<Rightarrow> 'a mat \<Rightarrow> 'b mat \<Rightarrow> 'c mat run" where
  "broadcast2 p f a b =
     (case (bc_extent (nrows a) (nrows b), bc_extent (ncols a) (ncols b)) of
        (Some r, Some c) \<Rightarrow>
          exec p \<lparr>nrows = r, ncols = c,
                  entry = (\<lambda>i j. f (entry a (bc_index (nrows a) (nrows b) i) (bc_index (ncols a) (ncols b) j))
                                   (entry b (bc_index (nrows b) (nrows a) i) (bc_index (ncols b) (ncols a) j)))\<rparr>
      | _ \<Rightarrow> raise (TensorOpError ''shapes cannot be broadcast''))"

text \<open>\<^verbatim>\<open>O.matmul(a, b)\<close>.\<close>

definition matmul :: "('a::{comm_monoid_add,times}) mat \<Rightarrow> 'a mat \<Rightarrow> 'a mat run" where
  "matmul a b =
     (if ncols a = nrows b
      then exec OpMatmul
             \<lparr>nrows = nrows a, ncols = ncols b,
              entry = (\<lambda>i j. \<Sum>k<ncols a. entry a i k * entry b k j)\<rparr>
      else raise (TensorOpError ''matmul: inner extents differ''))"

text \<open>\<^verbatim>\<open>O.max(x, axis=1, keepdims=True)\<close>: the values, as a column.\<close>

definition row_max :: "fval mat \<Rightarrow> nat \<Rightarrow> fval" where
  "row_max a i = fold fmax (map (entry a i) [0..<ncols a]) NInf"

definition max_axis1 :: "fval mat \<Rightarrow> fval mat run" where
  "max_axis1 a =
     (if ncols a = 0 then raise (TensorOpError ''max over an empty axis'')
      else exec OpMax \<lparr>nrows = nrows a, ncols = 1, entry = (\<lambda>i j. row_max a i)\<rparr>)"

text \<open>\<^verbatim>\<open>x.sum(1)\<close>: a rank-1 tensor with one entry per row.\<close>

definition sum_axis1 :: "fval mat \<Rightarrow> fval mat run" where
  "sum_axis1 a = exec OpSum \<lparr>nrows = 1, ncols = nrows a, entry = (\<lambda>i j. \<Sum>k<ncols a. entry a j k)\<rparr>"

text \<open>\<^verbatim>\<open>x.view(r, c)\<close> on a rank-1 tensor, and \<^verbatim>\<open>x.mean()\<close>.\<close>

definition view2 :: "'a mat \<Rightarrow> nat \<Rightarrow> nat \<Rightarrow> 'a mat run" where
  "view2 a r c =
     (if r * c = nrows a * ncols a
      then exec OpView \<lparr>nrows = r, ncols = c, entry = (\<lambda>i j. entry a 0 (i * c + j))\<rparr>
      else raise (TensorOpError ''view: the number of elements differs''))"

definition mean :: "fval mat \<Rightarrow> fval run" where
  "mean a = exec OpMean (fdiv (\<Sum>i<nrows a. \<Sum>j<ncols a. entry a i j) (Fin (real (nrows a * ncols a))))"

text \<open>\<^verbatim>\<open>O.cat(O.unbind(features, dim=1), axis=0)\<close>: the slices of the views, stacked.\<close>

definition unbind1 :: "features3 \<Rightarrow> real mat list run" where
  "unbind1 f = exec OpUnbind
     (map (\<lambda>v. \<lparr>nrows = bsz f, ncols = emb_dim f, entry = (\<lambda>b k. at3 f b v k)\<rparr>) [0..<n_views f])"

definition vstack :: "'a mat \<Rightarrow> 'a mat \<Rightarrow> 'a mat" where
  "vstack a b =
     \<lparr>nrows = nrows a + nrows b, ncols = ncols a,
      entry = (\<lambda>i j. if i < nrows a then entry a i j else entry b (i - nrows a) j)\<rparr>"

fun cat_rows :: "'a mat list \<Rightarrow> 'a mat option" where
  "cat_rows [] = None"
| "cat_rows [a] = Some a"
| "cat_rows (a # b # cs) =
     (case cat_rows (b # cs) of
        None \<Rightarrow> None
      | Some r \<Rightarrow> if ncols a = ncols r then Some (vstack a r) else None)"

definition cat0 :: "'a mat list \<Rightarrow> 'a mat run" where
  "cat0 ms = (case cat_rows ms of
                None \<Rightarrow> raise (TensorOpError ''cat: no tensors, or extents differ'')
              | Some r \<Rightarrow> exec OpCat r)"

section \<open>The loss\<close>

text \<open>The three hyperparameters of \<^verbatim>\<open>OrdinalSupConLoss.__init__\<close>, Python floats and a string.\<close>

record hparams =
  temperature :: real
  contrast_mode :: string
  base_temperature :: real

definition default_hparams :: hparams where
  "default_hparams = \<lparr>temperature = 1 / 2, contrast_mode = ''all'', base_temperature = 7 / 100\<rparr>"

subsection \<open>Lines 35 to 39: the rank check and the flattening view\<close>

definition as3 :: "nat \<Rightarrow> nat \<Rightarrow> nat \<Rightarrow> (nat \<Rightarrow> real) \<Rightarrow> features3" where
  "as3 b v d buf = \<lparr>bsz = b, n_views = v, emb_dim = d, at3 = (\<lambda>i j k. buf ((i * v + j) * d + k))\<rparr>"

text \<open>
  \<^verbatim>\<open>features.view(features.shape[0], features.shape[1], -1)\<close> keeps the buffer; the
  last extent is the product of the trailing ones. (For a tensor with no element in the
  first two axes the extent the runtime infers cannot be observed: no entry exists.)
\<close>

definition check_features :: "real tensor \<Rightarrow> features3 run" where
  "check_features features =
     (let s = shape features in
      if length s < 3
      then raise (ValueError ''`features` needs to be [bsz, n_views, ...],at least 3 dimensions are required'')
      else if length s > 3
      then exec OpView (as3 (s ! 0) (s ! 1) (prod_shape (drop 2 s)) (flat features))
      else ret (as3 (s ! 0) (s ! 1) (s ! 2) (flat features)))"

subsection \<open>Lines 42 to 54: the positive mask and the ordinal weights\<close>

text \<open>\<^verbatim>\<open>labels.view(-1, 1)\<close>: a column with one row per element of \<open>labels\<close>.\<close>

definition view_column :: "'a tensor \<Rightarrow> 'a mat run" where
  "view_column t = exec OpView \<lparr>nrows = prod_shape (shape t), ncols = 1, entry = (\<lambda>i j. flat t i)\<rparr>"

text \<open>
  The result is the mask and the local variable \<open>weights\<close>, which only the labels
  branch assigns: \<open>None\<close> is the unbound variable.
\<close>

definition select_mask ::
  "nat \<Rightarrow> real tensor option \<Rightarrow> real mat option \<Rightarrow> (fval mat \<times> fval mat option) run" where
  "select_mask batch_size labels mask0 =
     (case (labels, mask0) of
        (Some _, Some _) \<Rightarrow> raise (ValueError ''Cannot define both `labels` and `mask`'')
      | (None, None) \<Rightarrow> seq (eye batch_size batch_size) (\<lambda>mask. ret (mask, None))
      | (Some labels, None) \<Rightarrow>
          seq (view_column labels) (\<lambda>labels.
          if nrows labels \<noteq> batch_size
          then raise (ValueError ''Num of labels does not match num of features'')
          else
          seq (transpose_t labels) (\<lambda>labels_T.
          seq (broadcast2 OpEqual (=) labels labels_T) (\<lambda>same.
          seq (pointwise OpFloat of_bool_f same) (\<lambda>mask.
          seq (tile labels 2 1) (\<lambda>labels_r.
          seq (transpose_t labels_r) (\<lambda>labels_r_T.
          seq (broadcast2 OpSub (-) labels_r labels_r_T) (\<lambda>diff.
          seq (pointwise OpAbs abs diff) (\<lambda>dist.
          seq (pointwise OpFloat Fin dist) (\<lambda>weights.
          ret (mask, Some weights))))))))))
      | (None, Some mask0) \<Rightarrow> seq (pointwise OpFloat Fin mask0) (\<lambda>mask. ret (mask, None)))"

subsection \<open>Lines 56 to 65: the contrast pool and the anchors\<close>

text \<open>\<^verbatim>\<open>features[:, 0]\<close>.\<close>

definition index_view0 :: "features3 \<Rightarrow> real mat run" where
  "index_view0 f =
     (if n_views f = 0 then raise IndexError
      else exec OpIndex \<lparr>nrows = bsz f, ncols = emb_dim f, entry = (\<lambda>b k. at3 f b 0 k)\<rparr>)"

text \<open>The result is \<open>(anchor_feature, contrast_feature, anchor_count, contrast_count)\<close>.\<close>

definition select_anchor :: "hparams \<Rightarrow> features3 \<Rightarrow> (real mat \<times> real mat \<times> nat \<times> nat) run" where
  "select_anchor hp features =
     (let contrast_count = n_views features in
      seq (unbind1 features) (\<lambda>views.
      seq (cat0 views) (\<lambda>contrast_feature.
      if contrast_mode hp = ''one''
      then seq (index_view0 features) (\<lambda>anchor_feature.
           ret (anchor_feature, contrast_feature, 1, contrast_count))
      else if contrast_mode hp = ''all''
      then ret (contrast_feature, contrast_feature, contrast_count, contrast_count)
      else raise (ValueError (''Unknown mode: '' @ contrast_mode hp)))))"

subsection \<open>Lines 68 to 73: the similarities and the shifted logits\<close>

definition dot_contrast :: "hparams \<Rightarrow> real mat \<Rightarrow> real mat \<Rightarrow> fval mat run" where
  "dot_contrast hp anchor_feature contrast_feature =
     seq (transpose_t contrast_feature) (\<lambda>contrast_T.
     seq (matmul anchor_feature contrast_T) (\<lambda>dots.
     pointwise OpDiv (\<lambda>x. fdiv (Fin x) (Fin (temperature hp))) dots))"

definition stabilise :: "fval mat \<Rightarrow> fval mat run" where
  "stabilise anchor_dot_contrast =
     seq (max_axis1 anchor_dot_contrast) (\<lambda>logits_max.
     broadcast2 OpSub (-) anchor_dot_contrast logits_max)"

subsection \<open>Lines 76 to 80: the tiled mask without the self-contrast entries\<close>

text \<open>The result is \<open>(mask, logits_mask)\<close>.\<close>

definition mask_out_self :: "fval mat \<Rightarrow> nat \<Rightarrow> nat \<Rightarrow> (fval mat \<times> fval mat) run" where
  "mask_out_self mask0 anchor_count contrast_count =
     seq (tile mask0 anchor_count contrast_count) (\<lambda>mask.
     seq (eye (nrows mask) (ncols mask)) (\<lambda>diag.
     seq (pointwise OpMul (\<lambda>x. x * Fin (- 1)) diag) (\<lambda>neg_diag.
     seq (pointwise OpAdd (\<lambda>x. x + Fin 1) neg_diag) (\<lambda>logits_mask.
     seq (broadcast2 OpMul (*) mask logits_mask) (\<lambda>mask.
     ret (mask, logits_mask))))))"

subsection \<open>Lines 83 to 92: the weighted log-likelihood and its mean\<close>

definition reduce_loss ::
  "hparams \<Rightarrow> fval mat \<Rightarrow> fval mat \<Rightarrow> fval mat \<Rightarrow> fval mat option \<Rightarrow> nat \<Rightarrow> nat \<Rightarrow> fval run" where
  "reduce_loss hp logits mask1 logits_mask weights anchor_count batch_size =
     seq (pointwise OpExp fexp logits) (\<lambda>exps.
     seq (broadcast2 OpMul (*) exps logits_mask) (\<lambda>exp_logits.
     case weights of
       None \<Rightarrow> raise (UnboundLocalError ''weights'')
     | Some weights \<Rightarrow>
     seq (matmul exp_logits weights) (\<lambda>exp_logits_sum.
     seq (pointwise OpLog flog exp_logits_sum) (\<lambda>log_sum.
     seq (broadcast2 OpSub (-) logits log_sum) (\<lambda>log_prob.
     seq (broadcast2 OpMul (*) mask1 log_prob) (\<lambda>pos_log_prob.
     seq (sum_axis1 pos_log_prob) (\<lambda>pos_sum.
     seq (sum_axis1 mask1) (\<lambda>pos_count.
     seq (broadcast2 OpDiv fdiv pos_sum pos_count) (\<lambda>mean_log_prob_pos.
     if base_temperature hp = 0 then raise ZeroDivisionError
     else
     seq (pointwise OpMul (\<lambda>x. Fin (- (temperature hp / base_temperature hp)) * x) mean_log_prob_pos) (\<lambda>loss.
     seq (view2 loss anchor_count batch_size) (\<lambda>loss.
     mean loss)))))))))))"

text \<open>Lines 75 to 94, from the logits on.\<close>

definition loss_of_logits ::
  "hparams \<Rightarrow> fval mat \<Rightarrow> fval mat \<Rightarrow> fval mat option \<Rightarrow> nat \<Rightarrow> nat \<Rightarrow> nat \<Rightarrow> fval run" where
  "loss_of_logits hp logits mask0 weights anchor_count contrast_count batch_size =
     seq (mask_out_self mask0 anchor_count contrast_count) (\<lambda>(mask, logits_mask).
     reduce_loss hp logits mask logits_mask weights anchor_count batch_size)"

subsection \<open>\<^verbatim>\<open>OrdinalSupConLoss.construct\<close>\<close>

definition construct :: "hparams \<Rightarrow> real tensor \<Rightarrow> real tensor option \<Rightarrow> real mat option \<Rightarrow> fval run" where
  "construct hp features labels mask0 =
     seq (check_features features) (\<lambda>features.
     let batch_size = bsz features in
     seq (select_mask batch_size labels mask0) (\<lambda>(mask, weights).
     seq (select_anchor hp features) (\<lambda>(anchor_feature, contrast_feature, anchor_count, contrast_count).
     seq (dot_contrast hp anchor_feature contrast_feature) (\<lambda>anchor_dot_contrast.
     seq (stabilise anchor_dot_contrast) (\<lambda>logits.
     loss_of_logits hp logits mask weights anchor_count contrast_count batch_size)))))"

text \<open>
  For comparison: \<open>construct\<close> with lines 72 and 73 replaced by
  \<^verbatim>\<open>logits = anchor_dot_contrast\<close>, that is, without the row-maximum shift.
\<close>

definition construct_unshifted ::
  "hparams \<Rightarrow> real tensor \<Rightarrow> real tensor option \<Rightarrow> real mat option \<Rightarrow> fval run" where
  "construct_unshifted hp features labels mask0 =
     seq (check_features features) (\<lambda>features.
     let batch_size = bsz features in
     seq (select_mask batch_size labels mask0) (\<lambda>(mask, weights).
     seq (select_anchor hp features) (\<lambda>(anchor_feature, contrast_feature, anchor_count, contrast_count).
     seq (dot_contrast hp anchor_feature contrast_feature) (\<lambda>anchor_dot_contrast.
     loss_of_logits hp anchor_dot_contrast mask weights anchor_count contrast_count batch_size))))"

section \<open>The reference formula\<close>

text \<open>
  The loss as sections 4.2 to 4.4 of the specification word it, entry by entry on the
  pool of \<open>n_views * bsz\<close> vectors: all of view 0 first, then view 1.
\<close>

definition ref_pool :: "features3 \<Rightarrow> nat \<Rightarrow> nat \<Rightarrow> real" where
  "ref_pool f i k = at3 f (i mod bsz f) (i div bsz f) k"

definition ref_similarity :: "hparams \<Rightarrow> features3 \<Rightarrow> nat \<Rightarrow> nat \<Rightarrow> fval" where
  "ref_similarity hp f i j =
     fdiv (Fin (\<Sum>k<emb_dim f. ref_pool f i k * ref_pool f j k)) (Fin (temperature hp))"

definition ref_row_max :: "nat \<Rightarrow> (nat \<Rightarrow> nat \<Rightarrow> fval) \<Rightarrow> nat \<Rightarrow> fval" where
  "ref_row_max n g i = fold fmax (map (g i) [0..<n]) NInf"

definition ref_logits :: "hparams \<Rightarrow> features3 \<Rightarrow> nat \<Rightarrow> nat \<Rightarrow> fval" where
  "ref_logits hp f i j =
     ref_similarity hp f i j - ref_row_max (n_views f * bsz f) (ref_similarity hp f) i"

definition ref_exclusion :: "nat \<Rightarrow> nat \<Rightarrow> fval" where
  "ref_exclusion i j = (if i = j then Fin 0 else Fin 1)"

definition ref_weights :: "(nat \<Rightarrow> real) \<Rightarrow> nat \<Rightarrow> nat \<Rightarrow> nat \<Rightarrow> fval" where
  "ref_weights lab b i j = Fin \<bar>lab (i mod b) - lab (j mod b)\<bar>"

definition ref_mask :: "(nat \<Rightarrow> real) \<Rightarrow> nat \<Rightarrow> nat \<Rightarrow> nat \<Rightarrow> fval" where
  "ref_mask lab b i j = of_bool_f (lab (i mod b) = lab (j mod b)) * ref_exclusion i j"

definition ref_denominator ::
  "nat \<Rightarrow> (nat \<Rightarrow> nat \<Rightarrow> fval) \<Rightarrow> (nat \<Rightarrow> nat \<Rightarrow> fval) \<Rightarrow> nat \<Rightarrow> nat \<Rightarrow> fval" where
  "ref_denominator n L W i j = (\<Sum>k<n. (fexp (L i k) * ref_exclusion i k) * W k j)"

definition ref_log_prob ::
  "nat \<Rightarrow> (nat \<Rightarrow> nat \<Rightarrow> fval) \<Rightarrow> (nat \<Rightarrow> nat \<Rightarrow> fval) \<Rightarrow> nat \<Rightarrow> nat \<Rightarrow> fval" where
  "ref_log_prob n L W i j = L i j - flog (ref_denominator n L W i j)"

definition ref_mean_log_prob_pos ::
  "nat \<Rightarrow> (nat \<Rightarrow> nat \<Rightarrow> fval) \<Rightarrow> (nat \<Rightarrow> nat \<Rightarrow> fval) \<Rightarrow> (nat \<Rightarrow> nat \<Rightarrow> fval) \<Rightarrow> nat \<Rightarrow> fval" where
  "ref_mean_log_prob_pos n L W M i =
     fdiv (\<Sum>j<n. M i j * ref_log_prob n L W i j) (\<Sum>j<n. M i j)"

definition ref_loss ::
  "hparams \<Rightarrow> nat \<Rightarrow> nat \<Rightarrow> (nat \<Rightarrow> nat \<Rightarrow> fval) \<Rightarrow> (nat \<Rightarrow> nat \<Rightarrow> fval) \<Rightarrow> (nat \<Rightarrow> nat \<Rightarrow> fval) \<Rightarrow> fval" where
  "ref_loss hp rows n L W M =
     fdiv (\<Sum>i<rows. Fin (- (temperature hp / base_temperature hp)) * ref_mean_log_prob_pos n L W M i)
          (Fin (real rows))"

section \<open>Auxiliary definitions\<close>

text \<open>The contrast pool of line 57 for two views: the slice of view 0 on top of that of view 1.\<close>

definition pool_code :: "features3 \<Rightarrow> real mat" where
  "pool_code f =
     vstack \<lparr>nrows = bsz f, ncols = emb_dim f, entry = (\<lambda>b k. at3 f b 0 k)\<rparr>
            \<lparr>nrows = bsz f, ncols = emb_dim f, entry = (\<lambda>b k. at3 f b 1 k)\<rparr>"

text \<open>The value of \<open>anchor_count\<close> for two views, by mode.\<close>

definition anchor_count_of :: "hparams \<Rightarrow> nat" where
  "anchor_count_of hp = (if contrast_mode hp = ''one'' then 1 else 2)"

text \<open>
  Reordering a tensor along its first axis: slice \<open>i\<close> of the result is slice \<open>p i\<close> of
  the argument (\<^verbatim>\<open>x[perm]\<close>).
\<close>

definition permute_batch :: "(nat \<Rightarrow> nat) \<Rightarrow> 'a tensor \<Rightarrow> 'a tensor" where
  "permute_batch p t =
     (let s = prod_shape (tl (shape t))
      in \<lparr>shape = shape t, flat = (\<lambda>off. flat t (p (off div s) * s + off mod s))\<rparr>)"

subsection \<open>Example inputs\<close>

text \<open>Two samples, two views, one coordinate; labels 0 and 1.\<close>

definition ex_features :: "real tensor" where
  "ex_features = \<lparr>shape = [2, 2, 1], flat = real\<rparr>"

definition ex_labels :: "real tensor" where
  "ex_labels = \<lparr>shape = [2], flat = real\<rparr>"

definition ex_mask :: "real mat" where
  "ex_mask = \<lparr>nrows = 2, ncols = 2, entry = (\<lambda>i j. if i = j then 1 else 0)\<rparr>"

text \<open>One sample, two views, one coordinate; label 5.\<close>

definition ex_features1 :: "real tensor" where
  "ex_features1 = \<lparr>shape = [1, 2, 1], flat = (\<lambda>off. 1)\<rparr>"

definition ex_labels1 :: "real tensor" where
  "ex_labels1 = \<lparr>shape = [1], flat = (\<lambda>off. 5)\<rparr>"

text \<open>The same sample as a tensor of rank 4.\<close>

definition ex_features_rank4 :: "real tensor" where
  "ex_features_rank4 = \<lparr>shape = [1, 2, 1, 1], flat = (\<lambda>off. 1)\<rparr>"

text \<open>Lines 56 to 94, after the mask is chosen.\<close>

definition construct_tail ::
  "hparams \<Rightarrow> features3 \<Rightarrow> fval mat \<Rightarrow> fval mat option \<Rightarrow> fval run" where
  "construct_tail hp f m w =
     seq (select_anchor hp f) (\<lambda>(anchor_feature, contrast_feature, anchor_count, contrast_count).
     seq (dot_contrast hp anchor_feature contrast_feature) (\<lambda>anchor_dot_contrast.
     seq (stabilise anchor_dot_contrast) (\<lambda>logits.
     loss_of_logits hp logits m w anchor_count contrast_count (bsz f))))"

text \<open>A run raises only exceptions with the property \<open>P\<close>.\<close>

definition raises_only :: "(py_error \<Rightarrow> bool) \<Rightarrow> 'a run \<Rightarrow> bool" where
  "raises_only P r = (\<forall>e. outcome r = Inl e \<longrightarrow> P e)"

text \<open>The default hyperparameters with another mode.\<close>

definition hparams_one :: hparams where
  "hparams_one = \<lparr>temperature = 1 / 2, contrast_mode = ''one'', base_temperature = 7 / 100\<rparr>"

definition hparams_other :: hparams where
  "hparams_other = \<lparr>temperature = 1 / 2, contrast_mode = ''any'', base_temperature = 7 / 100\<rparr>"

text \<open>
  The permutation of the pool of two views that a permutation \<open>p\<close> of the batch induces:
  row \<open>v * b + i\<close> goes to row \<open>v * b + p i\<close>.
\<close>

definition pool_perm :: "nat \<Rightarrow> (nat \<Rightarrow> nat) \<Rightarrow> nat \<Rightarrow> nat" where
  "pool_perm b p i = (i div b) * b + p (i mod b)"

text \<open>The permutation of two samples that exchanges them.\<close>

definition swap01 :: "nat \<Rightarrow> nat" where
  "swap01 i = (if i = 0 then 1 else if i = 1 then 0 else i)"

text \<open>Two samples with the same label.\<close>

definition ex_labels_same :: "real tensor" where
  "ex_labels_same = \<lparr>shape = [2], flat = (\<lambda>off. 3)\<rparr>"

section \<open>Basic facts\<close>

declare fdiv.simps(1) [simp del] flog.simps(1) [simp del]

lemma fdiv_Fin [simp]: "b \<noteq> 0 \<Longrightarrow> fdiv (Fin a) (Fin b) = Fin (a / b)"
  by (simp add: fdiv.simps(1))
lemma fdiv_zero_zero [simp]: "fdiv (Fin 0) (Fin 0) = NaN"
  by (simp add: fdiv.simps(1))
lemma flog_pos [simp]: "0 < a \<Longrightarrow> flog (Fin a) = Fin (ln a)"
  by (simp add: flog.simps(1))
lemma flog_zero [simp]: "flog (Fin 0) = NInf"
  by (simp add: flog.simps(1))

lemma seq_exec [simp]: "seq (exec p x) k = logged [p] (k x)"
  by (simp add: seq_def exec_def)
lemma seq_ret [simp]: "seq (ret x) k = k x"
  by (simp add: seq_def ret_def logged_def)
lemma seq_raise [simp]: "seq (raise e) k = raise e"
  by (simp add: seq_def raise_def)
lemma seq_logged [simp]: "seq (logged ps r) k = logged ps (seq r k)"
  by (cases r) (simp add: seq_def logged_def split: sum.splits)
lemma logged_logged [simp]: "logged ps (logged qs r) = logged (ps @ qs) r"
  by (simp add: logged_def)
lemma outcome_simps [simp]:
  "outcome (logged ps r) = outcome r"
  "outcome (ret x) = Inr x"
  "outcome (raise e) = Inl e"
  "outcome (exec p x) = Inr x"
  by (simp_all add: outcome_def logged_def ret_def raise_def exec_def)
lemma ops_simps [simp]:
  "ops (logged ps r) = ps @ ops r"
  "ops (ret x) = []"
  "ops (raise e) = []"
  "ops (exec p x) = [p]"
  by (simp_all add: ops_def logged_def ret_def raise_def exec_def)
lemma outcome_seq:
  "outcome (seq m k) = (case outcome m of Inl e \<Rightarrow> Inl e | Inr x \<Rightarrow> outcome (k x))"
  by (simp add: seq_def outcome_def logged_def split: sum.splits)
lemma outcome_seq_Inr: "outcome m = Inr x \<Longrightarrow> outcome (seq m k) = outcome (k x)"
  by (simp add: outcome_seq)
lemma outcome_seq_Inl: "outcome m = Inl e \<Longrightarrow> outcome (seq m k) = Inl e"
  by (simp add: outcome_seq)

lemma bc_extent_simps [simp]:
  "bc_extent n n = Some n" "bc_extent n (Suc 0) = Some n" "bc_extent (Suc 0) n = Some n"
  by (auto simp: bc_extent_def)
lemma bc_index_simps [simp]:
  "bc_index n n i = i" "bc_index n (Suc 0) i = i"
  by (auto simp: bc_index_def)

lemma check_features_rank3:
  "shape f = [b, v, d] \<Longrightarrow> check_features f = ret (as3 b v d (flat f))"
  by (simp add: check_features_def)

lemma select_mask_labels:
  "prod_shape (shape l) = b \<Longrightarrow>
   outcome (select_mask b (Some l) None) =
     Inr (\<lparr>nrows = b, ncols = b, entry = (\<lambda>i j. of_bool_f (flat l i = flat l j))\<rparr>,
          Some \<lparr>nrows = 2 * b, ncols = 2 * b,
                entry = (\<lambda>i j. Fin \<bar>flat l (i mod b) - flat l (j mod b)\<bar>)\<rparr>)"
  by (simp add: select_mask_def view_column_def transpose_t_def broadcast2_def pointwise_def tile_def)

lemma select_anchor_two_views:
  "n_views f = 2 \<Longrightarrow> contrast_mode hp = ''all'' \<Longrightarrow>
   outcome (select_anchor hp f) =
     (let c = \<lparr>nrows = bsz f + bsz f, ncols = emb_dim f,
               entry = (\<lambda>i k. if i < bsz f then at3 f i 0 k else at3 f (i - bsz f) 1 k)\<rparr>
      in Inr (c, c, 2, 2))"
proof -
  have u: "[0..<2::nat] = [0, 1]" by (simp add: upt_rec)
  assume "n_views f = 2" "contrast_mode hp = ''all''"
  then show ?thesis
    by (simp add: select_anchor_def unbind1_def cat0_def vstack_def u Let_def cong: if_cong)
qed

section \<open>The reduction in closed form\<close>

lemma logits_mask_entry: "(if i = j then Fin 1 else Fin 0) * Fin (- 1) + Fin 1 = ref_exclusion i (j::nat)"
  by (simp add: ref_exclusion_def)

lemma sum_rows_flat:
  fixes g :: "nat \<Rightarrow> 'a::comm_monoid_add"
  shows "(\<Sum>i<a. \<Sum>j<b. g (i * b + j)) = (\<Sum>t<a * b. g t)"
proof -
  have "(\<Sum>j<b. g (i * b + j)) = sum g {i * b..<i * b + b}" for i
    using sum.shift_bounds_nat_ivl [of g 0 "i * b" b] by (simp add: lessThan_atLeast0 add.commute)
  then show ?thesis
    by (simp add: sum.nat_group)
qed

lemma loss_of_logits_closed:
  assumes "nrows L = ac * b" "ncols L = 2 * b" "nrows M = b" "ncols M = b"
    and "nrows W = 2 * b" "ncols W = 2 * b" "base_temperature hp \<noteq> 0"
  shows "outcome (loss_of_logits hp L M (Some W) ac 2 b) =
           Inr (ref_loss hp (ac * b) (2 * b) (entry L) (entry W)
                  (\<lambda>i j. entry M (i mod b) (j mod b) * ref_exclusion i j))"
proof -
  define G where "G = (\<lambda>t. Fin (- (temperature hp / base_temperature hp)) *
      ref_mean_log_prob_pos (2 * b) (entry L) (entry W)
        (\<lambda>i j. entry M (i mod b) (j mod b) * ref_exclusion i j) t)"
  have r: "ref_loss hp (ac * b) (2 * b) (entry L) (entry W)
             (\<lambda>i j. entry M (i mod b) (j mod b) * ref_exclusion i j) =
           fdiv (\<Sum>i<ac. \<Sum>j<b. G (i * b + j)) (Fin (real (ac * b)))"
    using sum_rows_flat [of G b ac] by (simp add: ref_loss_def G_def)
  show ?thesis
    unfolding r using assms
    by (simp add: loss_of_logits_def mask_out_self_def reduce_loss_def tile_def eye_def pointwise_def
      broadcast2_def matmul_def sum_axis1_def view2_def mean_def logits_mask_entry G_def
      ref_mean_log_prob_pos_def ref_log_prob_def ref_denominator_def)
qed

lemma upt_2: "[0..<2::nat] = [0, 1]"
  by (simp add: upt_rec)

lemma select_anchor_all:
  assumes "n_views f = 2" "contrast_mode hp = ''all''"
  shows "outcome (select_anchor hp f) =
     Inr (vstack \<lparr>nrows = bsz f, ncols = emb_dim f, entry = (\<lambda>b k. at3 f b 0 k)\<rparr>
                 \<lparr>nrows = bsz f, ncols = emb_dim f, entry = (\<lambda>b k. at3 f b 1 k)\<rparr>,
          vstack \<lparr>nrows = bsz f, ncols = emb_dim f, entry = (\<lambda>b k. at3 f b 0 k)\<rparr>
                 \<lparr>nrows = bsz f, ncols = emb_dim f, entry = (\<lambda>b k. at3 f b 1 k)\<rparr>, 2, 2)"
  using assms by (simp add: select_anchor_def unbind1_def cat0_def upt_2 Let_def)

lemma select_anchor_one:
  assumes "n_views f = 2" "contrast_mode hp = ''one''"
  shows "outcome (select_anchor hp f) =
     Inr (\<lparr>nrows = bsz f, ncols = emb_dim f, entry = (\<lambda>b k. at3 f b 0 k)\<rparr>,
          vstack \<lparr>nrows = bsz f, ncols = emb_dim f, entry = (\<lambda>b k. at3 f b 0 k)\<rparr>
                 \<lparr>nrows = bsz f, ncols = emb_dim f, entry = (\<lambda>b k. at3 f b 1 k)\<rparr>, 1, 2)"
  using assms by (simp add: select_anchor_def unbind1_def cat0_def upt_2 Let_def index_view0_def)

lemma dot_contrast_outcome:
  assumes "ncols a = ncols c"
  shows "outcome (dot_contrast hp a c) =
     Inr \<lparr>nrows = nrows a, ncols = nrows c,
          entry = (\<lambda>i j. fdiv (Fin (\<Sum>k<ncols a. entry a i k * entry c j k)) (Fin (temperature hp)))\<rparr>"
  using assms by (simp add: dot_contrast_def transpose_t_def matmul_def pointwise_def)

lemma stabilise_outcome:
  assumes "ncols a \<noteq> 0"
  shows "outcome (stabilise a) =
     Inr \<lparr>nrows = nrows a, ncols = ncols a, entry = (\<lambda>i j. entry a i j - row_max a i)\<rparr>"
  using assms by (simp add: stabilise_def max_axis1_def broadcast2_def bc_index_def)

lemma ref_loss_cong:
  assumes "\<And>i j. i < rows \<Longrightarrow> j < n \<Longrightarrow> L i j = L' i j"
  shows "ref_loss hp rows n L W M = ref_loss hp rows n L' W M"
proof -
  have d: "ref_denominator n L W i j = ref_denominator n L' W i j" if "i < rows" for i j
    unfolding ref_denominator_def using that by (intro sum.cong) (simp_all add: assms)
  have p: "ref_log_prob n L W i j = ref_log_prob n L' W i j" if "i < rows" "j < n" for i j
    using that by (simp add: ref_log_prob_def d assms)
  have m: "ref_mean_log_prob_pos n L W M i = ref_mean_log_prob_pos n L' W M i" if "i < rows" for i
    unfolding ref_mean_log_prob_pos_def using that
    by (intro arg_cong2 [where f = fdiv] sum.cong) (simp_all add: p)
  show ?thesis
    unfolding ref_loss_def
    by (intro arg_cong2 [where f = fdiv] sum.cong) (simp_all add: m)
qed

lemma pool_code_entry:
  assumes "i < 2 * bsz f"
  shows "entry (pool_code f) i k = ref_pool f i k"
proof (cases "i < bsz f")
  case True
  then show ?thesis by (simp add: ref_pool_def pool_code_def vstack_def)
next
  case False
  with assms have "i mod bsz f = i - bsz f" "i div bsz f = 1"
    by (auto simp: mod_if div_if le_mod_geq)
  with False show ?thesis by (simp add: ref_pool_def pool_code_def vstack_def)
qed

lemma pool_code_shape [simp]:
  "nrows (pool_code f) = 2 * bsz f" "ncols (pool_code f) = emb_dim f"
  by (simp_all add: pool_code_def vstack_def)

lemma view0_entry:
  assumes "i < bsz f"
  shows "at3 f i 0 k = ref_pool f i k"
  using assms by (simp add: ref_pool_def)

lemma row_max_cong:
  assumes "\<And>j. j < n \<Longrightarrow> g j = h j"
  shows "fold fmax (map g [0..<n]) NInf = fold fmax (map h [0..<n]) NInf"
proof -
  have "map g [0..<n] = map h [0..<n]"
    using assms by simp
  then show ?thesis by (rule arg_cong [where f = "\<lambda>xs. fold fmax xs NInf"])
qed

lemma similarity_code:
  assumes "i < nrows a" "j < 2 * bsz f" "ncols a = emb_dim f"
    and "\<And>i k. i < nrows a \<Longrightarrow> entry a i k = ref_pool f i k"
  shows "fdiv (Fin (\<Sum>k<ncols a. entry a i k * entry (pool_code f) j k)) (Fin (temperature hp)) =
         ref_similarity hp f i j"
  using assms by (simp add: ref_similarity_def pool_code_entry)

lemma tail_unshifted_closed:
  assumes a: "nrows a = ac * b" "ncols a = emb_dim f" "bsz f = b" "n_views f = 2"
    and ar: "\<And>i k. i < nrows a \<Longrightarrow> entry a i k = ref_pool f i k"
    and m: "nrows M = b" "ncols M = b" "nrows W = 2 * b" "ncols W = 2 * b"
    and bt: "base_temperature hp \<noteq> 0"
  shows "outcome (seq (dot_contrast hp a (pool_code f)) (\<lambda>adc.
                  loss_of_logits hp adc M (Some W) ac 2 b)) =
         Inr (ref_loss hp (ac * b) (2 * b) (ref_similarity hp f) (entry W)
                (\<lambda>i j. entry M (i mod b) (j mod b) * ref_exclusion i j))"
proof -
  let ?adc = "\<lparr>nrows = nrows a, ncols = nrows (pool_code f),
     entry = (\<lambda>i j. fdiv (Fin (\<Sum>k<ncols a. entry a i k * entry (pool_code f) j k))
                          (Fin (temperature hp)))\<rparr>"
  have 1: "outcome (dot_contrast hp a (pool_code f)) = Inr ?adc"
    by (rule dot_contrast_outcome) (simp add: a)
  have 2: "outcome (loss_of_logits hp ?adc M (Some W) ac 2 b) =
      Inr (ref_loss hp (ac * b) (2 * b) (entry ?adc) (entry W)
            (\<lambda>i j. entry M (i mod b) (j mod b) * ref_exclusion i j))"
    by (rule loss_of_logits_closed) (simp_all add: a m bt)
  have 3: "ref_loss hp (ac * b) (2 * b) (entry ?adc) (entry W)
            (\<lambda>i j. entry M (i mod b) (j mod b) * ref_exclusion i j) =
        ref_loss hp (ac * b) (2 * b) (ref_similarity hp f) (entry W)
            (\<lambda>i j. entry M (i mod b) (j mod b) * ref_exclusion i j)"
    by (rule ref_loss_cong) (simp add: ref_similarity_def pool_code_entry a ar)
  show ?thesis
    by (simp only: outcome_seq 1 sum.case 2 3)
qed

lemma tail_closed:
  assumes a: "nrows a = ac * b" "ncols a = emb_dim f" "bsz f = b" "n_views f = 2"
    and ar: "\<And>i k. i < nrows a \<Longrightarrow> entry a i k = ref_pool f i k"
    and m: "nrows M = b" "ncols M = b" "nrows W = 2 * b" "ncols W = 2 * b"
    and bt: "base_temperature hp \<noteq> 0" and b: "0 < b"
  shows "outcome (seq (dot_contrast hp a (pool_code f)) (\<lambda>adc.
                  seq (stabilise adc) (\<lambda>logits.
                  loss_of_logits hp logits M (Some W) ac 2 b))) =
         Inr (ref_loss hp (ac * b) (2 * b) (ref_logits hp f) (entry W)
                (\<lambda>i j. entry M (i mod b) (j mod b) * ref_exclusion i j))"
proof -
  let ?adc = "\<lparr>nrows = nrows a, ncols = nrows (pool_code f),
     entry = (\<lambda>i j. fdiv (Fin (\<Sum>k<ncols a. entry a i k * entry (pool_code f) j k))
                          (Fin (temperature hp)))\<rparr>"
  let ?lg = "\<lparr>nrows = nrows ?adc, ncols = ncols ?adc,
     entry = (\<lambda>i j. entry ?adc i j - row_max ?adc i)\<rparr>"
  have 1: "outcome (dot_contrast hp a (pool_code f)) = Inr ?adc"
    by (rule dot_contrast_outcome) (simp add: a)
  have 2: "outcome (stabilise ?adc) = Inr ?lg"
    by (rule stabilise_outcome) (use b in \<open>simp add: a\<close>)
  have 3: "outcome (loss_of_logits hp ?lg M (Some W) ac 2 b) =
      Inr (ref_loss hp (ac * b) (2 * b) (entry ?lg) (entry W)
            (\<lambda>i j. entry M (i mod b) (j mod b) * ref_exclusion i j))"
    by (rule loss_of_logits_closed) (simp_all add: a m bt)
  have s: "entry ?adc i j = ref_similarity hp f i j" if "i < ac * b" "j < 2 * b" for i j
    using that by (simp add: ref_similarity_def pool_code_entry a ar)
  have r: "row_max ?adc i = ref_row_max (n_views f * bsz f) (ref_similarity hp f) i"
    if "i < ac * b" for i
  proof -
    have "fold fmax (map (entry ?adc i) [0..<2 * b]) NInf =
          fold fmax (map (ref_similarity hp f i) [0..<2 * b]) NInf"
      by (rule row_max_cong) (rule s [OF that])
    then show ?thesis
      by (simp add: row_max_def ref_row_max_def a)
  qed
  have 4: "ref_loss hp (ac * b) (2 * b) (entry ?lg) (entry W)
            (\<lambda>i j. entry M (i mod b) (j mod b) * ref_exclusion i j) =
        ref_loss hp (ac * b) (2 * b) (ref_logits hp f) (entry W)
            (\<lambda>i j. entry M (i mod b) (j mod b) * ref_exclusion i j)"
  proof (rule ref_loss_cong)
    fix i j assume "i < ac * b" "j < 2 * b"
    then show "entry ?lg i j = ref_logits hp f i j"
      using s [of i j] r [of i] by (simp add: ref_logits_def)
  qed
  show ?thesis
    by (simp only: outcome_seq 1 sum.case 2 3 4)
qed

lemma select_anchor_all':
  assumes "n_views f = 2" "contrast_mode hp = ''all''"
  shows "outcome (select_anchor hp f) = Inr (pool_code f, pool_code f, 2, 2)"
  using assms by (simp add: select_anchor_all pool_code_def)

lemma select_anchor_one':
  assumes "n_views f = 2" "contrast_mode hp = ''one''"
  shows "outcome (select_anchor hp f) =
     Inr (\<lparr>nrows = bsz f, ncols = emb_dim f, entry = (\<lambda>b k. at3 f b 0 k)\<rparr>, pool_code f, 1, 2)"
  using assms by (simp add: select_anchor_one pool_code_def)

lemma as3_simps [simp]:
  "bsz (as3 b v d buf) = b" "n_views (as3 b v d buf) = v" "emb_dim (as3 b v d buf) = d"
  by (simp_all add: as3_def)

lemma ref_weights_code:
  "(\<lambda>i j. Fin \<bar>lab (i mod b) - lab (j mod b)\<bar>) = ref_weights lab b"
  by (simp add: ref_weights_def fun_eq_iff)

lemma ref_mask_code:
  "(\<lambda>i j. of_bool_f (lab (i mod b) = lab (j mod b)) * ref_exclusion i j) = ref_mask lab b"
  by (simp add: ref_mask_def fun_eq_iff)

lemma construct_labels_closed:
  assumes f: "shape f = [b, 2, d]" and l: "prod_shape (shape l) = b" and b: "0 < b"
    and bt: "base_temperature hp \<noteq> 0"
    and mode: "contrast_mode hp = ''all'' \<or> contrast_mode hp = ''one''"
  shows "outcome (construct hp f (Some l) None) =
         Inr (ref_loss hp (anchor_count_of hp * b) (2 * b) (ref_logits hp (as3 b 2 d (flat f)))
                (ref_weights (flat l) b) (ref_mask (flat l) b))"
proof -
  let ?f = "as3 b 2 d (flat f)"
  let ?M = "\<lparr>nrows = b, ncols = b, entry = (\<lambda>i j. of_bool_f (flat l i = flat l j))\<rparr>"
  let ?W = "\<lparr>nrows = 2 * b, ncols = 2 * b,
             entry = (\<lambda>i j. Fin \<bar>flat l (i mod b) - flat l (j mod b)\<bar>)\<rparr>"
  have tail: "outcome (seq (dot_contrast hp a (pool_code ?f)) (\<lambda>adc.
                  seq (stabilise adc) (\<lambda>logits.
                  loss_of_logits hp logits ?M (Some ?W) ac 2 b))) =
         Inr (ref_loss hp (ac * b) (2 * b) (ref_logits hp ?f) (ref_weights (flat l) b)
                (ref_mask (flat l) b))"
    if "nrows a = ac * b" "ncols a = d" "\<And>i k. i < nrows a \<Longrightarrow> entry a i k = ref_pool ?f i k"
    for a ac
    using tail_closed [of a ac b ?f ?M ?W hp] that b bt
    by (simp add: ref_weights_code ref_mask_code)
  from mode show ?thesis
  proof
    assume m: "contrast_mode hp = ''all''"
    have "outcome (construct hp f (Some l) None) =
          outcome (seq (dot_contrast hp (pool_code ?f) (pool_code ?f)) (\<lambda>adc.
                  seq (stabilise adc) (\<lambda>logits.
                  loss_of_logits hp logits ?M (Some ?W) 2 2 b)))"
      using m l by (simp add: construct_def check_features_rank3 [OF f] outcome_seq
          select_mask_labels select_anchor_all')
    also have "\<dots> = Inr (ref_loss hp (2 * b) (2 * b) (ref_logits hp ?f) (ref_weights (flat l) b)
                (ref_mask (flat l) b))"
      by (rule tail) (simp_all add: pool_code_entry)
    finally show ?thesis
      using m by (simp add: anchor_count_of_def)
  next
    assume m: "contrast_mode hp = ''one''"
    let ?a = "\<lparr>nrows = b, ncols = d, entry = (\<lambda>i k. at3 ?f i 0 k)\<rparr>"
    have "outcome (construct hp f (Some l) None) =
          outcome (seq (dot_contrast hp ?a (pool_code ?f)) (\<lambda>adc.
                  seq (stabilise adc) (\<lambda>logits.
                  loss_of_logits hp logits ?M (Some ?W) 1 2 b)))"
      using m l by (simp add: construct_def check_features_rank3 [OF f] outcome_seq
          select_mask_labels select_anchor_one')
    also have "\<dots> = Inr (ref_loss hp (1 * b) (2 * b) (ref_logits hp ?f) (ref_weights (flat l) b)
                (ref_mask (flat l) b))"
      by (rule tail) (simp_all add: ref_pool_def)
    finally show ?thesis
      using m by (simp add: anchor_count_of_def)
  qed
qed

section \<open>The branches of the run\<close>

lemma prod_shape_simps [simp]:
  "prod_shape [] = 1" "prod_shape (n # ns) = n * prod_shape ns"
  by (simp_all add: prod_shape_def)

lemma check_features_outcome:
  assumes "3 \<le> length (shape f)"
  shows "outcome (check_features f) =
         Inr (as3 (shape f ! 0) (shape f ! 1) (prod_shape (drop 2 (shape f))) (flat f))"
proof (cases "length (shape f) = 3")
  case True
  then obtain b v d where s: "shape f = [b, v, d]"
    by (cases "shape f"; simp; rename_tac a as; case_tac as; simp; rename_tac a' as'; case_tac as'; simp)
  then show ?thesis by (simp add: check_features_def)
next
  case False
  with assms show ?thesis by (simp add: check_features_def Let_def)
qed

lemma check_features_ops:
  assumes "3 \<le> length (shape f)"
  shows "ops (check_features f) = (if 3 < length (shape f) then [OpView] else [])"
  using assms by (auto simp: check_features_def Let_def)

lemma cat_rows_shape:
  assumes "ms \<noteq> []" "\<forall>m\<in>set ms. nrows m = b \<and> ncols m = d"
  shows "\<exists>r. cat_rows ms = Some r \<and> nrows r = length ms * b \<and> ncols r = d"
  using assms
proof (induction ms)
  case Nil
  then show ?case by simp
next
  case (Cons a ms)
  from Cons.prems have a: "nrows a = b" "ncols a = d" by simp_all
  show ?case
  proof (cases ms)
    case Nil
    then show ?thesis by (simp add: a)
  next
    case c: (Cons c cs)
    have "ms \<noteq> []" "\<forall>m\<in>set ms. nrows m = b \<and> ncols m = d"
      using c Cons.prems by simp_all
    from Cons.IH [OF this] obtain r where
      r: "cat_rows ms = Some r" "nrows r = length ms * b" "ncols r = d"
      by blast
    have "cat_rows (a # ms) = Some (vstack a r)"
      unfolding c using r(1,3) a(2) by (simp add: c)
    then show ?thesis
      by (simp add: vstack_def a r)
  qed
qed

lemma select_anchor_shapes:
  assumes "0 < n_views f" "contrast_mode hp = ''all'' \<or> contrast_mode hp = ''one''"
  shows "\<exists>a c ac. outcome (select_anchor hp f) = Inr (a, c, ac, n_views f)
           \<and> nrows a = ac * bsz f \<and> ncols a = emb_dim f
           \<and> nrows c = n_views f * bsz f \<and> ncols c = emb_dim f"
proof -
  let ?ms = "map (\<lambda>v. \<lparr>nrows = bsz f, ncols = emb_dim f, entry = (\<lambda>b k. at3 f b v k)\<rparr>) [0..<n_views f]"
  have "\<exists>r. cat_rows ?ms = Some r \<and> nrows r = length ?ms * bsz f \<and> ncols r = emb_dim f"
    by (rule cat_rows_shape) (use assms(1) in simp_all)
  then obtain r where r: "cat_rows ?ms = Some r" "nrows r = n_views f * bsz f" "ncols r = emb_dim f"
    by auto
  from assms(2) show ?thesis
  proof
    assume "contrast_mode hp = ''all''"
    then show ?thesis
      using r by (simp add: select_anchor_def unbind1_def cat0_def Let_def)
  next
    assume "contrast_mode hp = ''one''"
    then show ?thesis
      using r assms(1) by (simp add: select_anchor_def unbind1_def cat0_def Let_def index_view0_def)
  qed
qed

lemma loss_of_logits_unbound:
  assumes "nrows L = ac * nrows M" "ncols L = cc * ncols M"
  shows "outcome (loss_of_logits hp L M None ac cc b) = Inl (UnboundLocalError ''weights'')"
  using assms
  by (simp add: loss_of_logits_def mask_out_self_def reduce_loss_def tile_def eye_def pointwise_def
      broadcast2_def)

lemma construct_mask_path:
  assumes f: "outcome (check_features f) = Inr g" and g: "0 < bsz g" "0 < n_views g"
    and m: "nrows m = bsz g" "ncols m = bsz g"
    and mode: "contrast_mode hp = ''all'' \<or> contrast_mode hp = ''one''"
  shows "outcome (construct hp f None (Some m)) = Inl (UnboundLocalError ''weights'')"
proof -
  obtain a c ac where 2: "outcome (select_anchor hp g) = Inr (a, c, ac, n_views g)"
    and s: "nrows a = ac * bsz g" "ncols a = ncols c" "nrows c = n_views g * bsz g"
    using select_anchor_shapes [of g hp] g mode by auto
  let ?adc = "\<lparr>nrows = nrows a, ncols = nrows c,
          entry = (\<lambda>i j. fdiv (Fin (\<Sum>k<ncols a. entry a i k * entry c j k)) (Fin (temperature hp)))\<rparr>"
  let ?M = "\<lparr>nrows = nrows m, ncols = ncols m, entry = (\<lambda>i j. Fin (entry m i j))\<rparr>"
  have 0: "outcome (select_mask (bsz g) None (Some m)) = Inr (?M, None)"
    by (simp add: select_mask_def pointwise_def)
  have 3: "outcome (dot_contrast hp a c) = Inr ?adc"
    by (rule dot_contrast_outcome) (rule s)
  have 4: "outcome (stabilise ?adc) =
     Inr \<lparr>nrows = nrows ?adc, ncols = ncols ?adc, entry = (\<lambda>i j. entry ?adc i j - row_max ?adc i)\<rparr>"
    by (rule stabilise_outcome) (use g s in simp)
  have 5: "outcome (loss_of_logits hp
       \<lparr>nrows = nrows ?adc, ncols = ncols ?adc, entry = (\<lambda>i j. entry ?adc i j - row_max ?adc i)\<rparr>
       ?M None ac (n_views g) (bsz g)) = Inl (UnboundLocalError ''weights'')"
    by (rule loss_of_logits_unbound) (simp_all add: s m)
  show ?thesis
    unfolding construct_def
    by (simp only: outcome_seq f sum.case Let_def 0 2 3 4 5 prod.case)
qed

lemma raises_only_seq:
  assumes "raises_only P m" "\<And>x. raises_only P (k x)"
  shows "raises_only P (seq m k)"
  using assms by (auto simp: raises_only_def outcome_seq split: sum.splits)

lemma raises_only_basic [simp]:
  "raises_only P (ret x)" "raises_only P (exec p x)" "raises_only P (raise e) = P e"
  by (simp_all add: raises_only_def)

lemma raises_only_if:
  "(c \<Longrightarrow> raises_only P a) \<Longrightarrow> (\<not> c \<Longrightarrow> raises_only P b) \<Longrightarrow> raises_only P (if c then a else b)"
  by simp

lemma raises_only_prims:
  assumes "\<And>s. P (TensorOpError s)"
  shows "raises_only P (eye n m)" "raises_only P (transpose_t a)" "raises_only P (tile a r c)"
    "raises_only P (pointwise p g a)" "raises_only P (sum_axis1 x)" "raises_only P (unbind1 f)"
    "raises_only P (mean x)" "raises_only P (broadcast2 p h a a')" "raises_only P (matmul y y')"
    "raises_only P (max_axis1 x)" "raises_only P (view2 a r c)" "raises_only P (cat0 ms)"
    "raises_only P (view_column t)"
  using assms
  by (simp_all add: eye_def transpose_t_def tile_def pointwise_def sum_axis1_def unbind1_def mean_def
      broadcast2_def matmul_def max_axis1_def view2_def cat0_def view_column_def
      split: option.splits)

lemma construct_via_tail:
  "construct hp f l m =
     seq (check_features f) (\<lambda>g. seq (select_mask (bsz g) l m) (\<lambda>(M, W). construct_tail hp g M W))"
  by (simp add: construct_def construct_tail_def Let_def)

lemma raises_only_tail:
  assumes t: "\<And>s. P (TensorOpError s)" and "P ZeroDivisionError" "P IndexError"
    "\<And>s. P (UnboundLocalError s)" "P (ValueError (''Unknown mode: '' @ contrast_mode hp))"
  shows "raises_only P (construct_tail hp f m w)"
proof -
  note p = raises_only_prims [of P, OF t]
  have 1: "raises_only P (select_anchor hp f)"
    unfolding select_anchor_def Let_def index_view0_def
    by (intro raises_only_seq raises_only_if p) (use assms in simp_all)
  have 2: "raises_only P (dot_contrast hp a c)" for a c
    unfolding dot_contrast_def by (intro raises_only_seq p)
  have 3: "raises_only P (stabilise a)" for a
    unfolding stabilise_def by (intro raises_only_seq p)
  have 4: "raises_only P (mask_out_self a r c)" for a r c
    unfolding mask_out_self_def by (intro raises_only_seq p) simp
  have 5: "raises_only P (reduce_loss hp l m1 lm w ac b)" for l m1 lm ac b
    unfolding reduce_loss_def
    by (cases w) (auto intro!: raises_only_seq raises_only_if p simp: assms)
  have 6: "raises_only P (loss_of_logits hp l m w ac cc b)" for l ac cc b
    unfolding loss_of_logits_def by (intro raises_only_seq 4) (simp add: 5 split: prod.splits)
  show ?thesis
    unfolding construct_tail_def
    by (intro raises_only_seq 1) (auto intro!: raises_only_seq 2 3 6)
qed

lemma select_mask_check:
  "outcome (select_mask b (Some l) None) =
     (if prod_shape (shape l) = b
      then Inr (\<lparr>nrows = b, ncols = b, entry = (\<lambda>i j. of_bool_f (flat l i = flat l j))\<rparr>,
                Some \<lparr>nrows = 2 * b, ncols = 2 * b,
                      entry = (\<lambda>i j. Fin \<bar>flat l (i mod b) - flat l (j mod b)\<bar>)\<rparr>)
      else Inl (ValueError ''Num of labels does not match num of features''))"
  by (simp add: select_mask_labels) (simp add: select_mask_def view_column_def)

lemma times_zero_one [simp]:
  "of_bool_f c * Fin 0 = Fin 0" "of_bool_f c * Fin 1 = of_bool_f c"
  by (simp_all add: of_bool_f_def)

lemma mask_out_self_outcome:
  "outcome (mask_out_self m ac cc) =
     Inr (\<lparr>nrows = ac * nrows m, ncols = cc * ncols m,
           entry = (\<lambda>i j. entry m (i mod nrows m) (j mod ncols m) * ref_exclusion i j)\<rparr>,
          \<lparr>nrows = ac * nrows m, ncols = cc * ncols m, entry = ref_exclusion\<rparr>)"
  by (simp add: mask_out_self_def tile_def eye_def pointwise_def broadcast2_def logits_mask_entry)

section \<open>The shift by the row maximum\<close>

lemma Fin_minus [simp]: "Fin a - Fin b = Fin (a - b)"
  by (simp add: minus_fval_def)

lemma Fin_minus_inf [simp]: "Fin a - NInf = PInf" "Fin a - PInf = NInf" "Fin a - NaN = NaN"
  by (simp_all add: minus_fval_def)

lemma sum_Fin: "(\<Sum>i\<in>S. Fin (g i)) = Fin (\<Sum>i\<in>S. g i)"
  by (induction S rule: infinite_finite_induct) (simp_all add: zero_fval_def)

lemma flog_neg [simp]: "a < 0 \<Longrightarrow> flog (Fin a) = NaN"
  by (simp add: flog.simps(1))

lemma ref_exclusion_Fin: "ref_exclusion i j = Fin (if i = j then 0 else 1)"
  by (simp add: ref_exclusion_def)

lemma fold_fmax_Fin:
  "fold fmax (map (\<lambda>j. Fin (g j)) xs) (Fin a) = Fin (fold max (map g xs) a)"
  by (induction xs arbitrary: a) simp_all

lemma ref_row_max_Fin:
  assumes "0 < n"
  shows "\<exists>m. ref_row_max n (\<lambda>i j. Fin (s i j)) i = Fin m"
proof -
  from assms have "[0..<n] = 0 # [1..<n]"
    by (simp add: upt_conv_Cons)
  then have "ref_row_max n (\<lambda>i j. Fin (s i j)) i =
      fold fmax (map (\<lambda>j. Fin (s i j)) [1..<n]) (Fin (s i 0))"
    by (simp add: ref_row_max_def)
  then show ?thesis
    by (simp add: fold_fmax_Fin)
qed

lemma log_prob_shift:
  "ref_log_prob n (\<lambda>i j. Fin (s i j - m i)) (\<lambda>k j. Fin (w k j)) i j =
   ref_log_prob n (\<lambda>i j. Fin (s i j)) (\<lambda>k j. Fin (w k j)) i j"
proof -
  define D where "D = (\<Sum>k<n. exp (s i k) * (if i = k then 0 else 1) * w k j)"
  have d0: "ref_denominator n (\<lambda>i j. Fin (s i j)) (\<lambda>k j. Fin (w k j)) i j = Fin D"
    by (simp add: ref_denominator_def ref_exclusion_Fin sum_Fin D_def)
  have "(\<Sum>k<n. exp (s i k - m i) * (if i = k then 0 else 1) * w k j) = exp (- m i) * D"
    unfolding D_def sum_distrib_left
    by (intro sum.cong) (simp_all add: exp_diff exp_minus field_simps)
  then have d1: "ref_denominator n (\<lambda>i j. Fin (s i j - m i)) (\<lambda>k j. Fin (w k j)) i j
      = Fin (exp (- m i) * D)"
    by (simp add: ref_denominator_def ref_exclusion_Fin sum_Fin)
  consider "0 < D" | "D = 0" | "D < 0" by linarith
  then show ?thesis
  proof cases
    case 1
    then have "ln (exp (- m i) * D) = - m i + ln D"
      by (simp add: ln_mult)
    with 1 show ?thesis
      by (simp add: ref_log_prob_def d0 d1)
  next
    case 2
    then show ?thesis
      by (simp add: ref_log_prob_def d0 d1)
  next
    case 3
    then have "exp (- m i) * D < 0"
      by (simp add: mult_pos_neg)
    with 3 show ?thesis
      by (simp add: ref_log_prob_def d0 d1)
  qed
qed

lemma ref_loss_shift:
  assumes "temperature hp \<noteq> 0" "0 < n_views f * bsz f"
  shows "ref_loss hp rows n (ref_logits hp f) (ref_weights lab b) M =
         ref_loss hp rows n (ref_similarity hp f) (ref_weights lab b) M"
proof -
  define s where "s = (\<lambda>i j. (\<Sum>k<emb_dim f. ref_pool f i k * ref_pool f j k) / temperature hp)"
  have sim: "ref_similarity hp f = (\<lambda>i j. Fin (s i j))"
    using assms(1) by (simp add: ref_similarity_def s_def fun_eq_iff)
  have "\<exists>m. ref_row_max (n_views f * bsz f) (\<lambda>i j. Fin (s i j)) i = Fin m" for i
    by (rule ref_row_max_Fin) (rule assms(2))
  then obtain m where m: "\<And>i. ref_row_max (n_views f * bsz f) (\<lambda>i j. Fin (s i j)) i = Fin (m i)"
    by metis
  have lg: "ref_logits hp f = (\<lambda>i j. Fin (s i j - m i))"
    by (simp add: ref_logits_def sim m fun_eq_iff)
  have w: "ref_weights lab b = (\<lambda>k j. Fin \<bar>lab (k mod b) - lab (j mod b)\<bar>)"
    by (simp add: ref_weights_def fun_eq_iff)
  have "ref_log_prob n (ref_logits hp f) (ref_weights lab b) i j =
        ref_log_prob n (ref_similarity hp f) (ref_weights lab b) i j" for n i j
    unfolding lg sim w by (rule log_prob_shift)
  then show ?thesis
    by (simp add: ref_loss_def ref_mean_log_prob_pos_def)
qed

lemma construct_unshifted_labels_closed:
  assumes f: "shape f = [b, 2, d]" and l: "prod_shape (shape l) = b"
    and bt: "base_temperature hp \<noteq> 0"
    and mode: "contrast_mode hp = ''all'' \<or> contrast_mode hp = ''one''"
  shows "outcome (construct_unshifted hp f (Some l) None) =
         Inr (ref_loss hp (anchor_count_of hp * b) (2 * b) (ref_similarity hp (as3 b 2 d (flat f)))
                (ref_weights (flat l) b) (ref_mask (flat l) b))"
proof -
  let ?f = "as3 b 2 d (flat f)"
  let ?M = "\<lparr>nrows = b, ncols = b, entry = (\<lambda>i j. of_bool_f (flat l i = flat l j))\<rparr>"
  let ?W = "\<lparr>nrows = 2 * b, ncols = 2 * b,
             entry = (\<lambda>i j. Fin \<bar>flat l (i mod b) - flat l (j mod b)\<bar>)\<rparr>"
  have tail: "outcome (seq (dot_contrast hp a (pool_code ?f)) (\<lambda>adc.
                  loss_of_logits hp adc ?M (Some ?W) ac 2 b)) =
         Inr (ref_loss hp (ac * b) (2 * b) (ref_similarity hp ?f) (ref_weights (flat l) b)
                (ref_mask (flat l) b))"
    if "nrows a = ac * b" "ncols a = d" "\<And>i k. i < nrows a \<Longrightarrow> entry a i k = ref_pool ?f i k"
    for a ac
    using tail_unshifted_closed [of a ac b ?f ?M ?W hp] that bt
    by (simp add: ref_weights_code ref_mask_code)
  from mode show ?thesis
  proof
    assume m: "contrast_mode hp = ''all''"
    have "outcome (construct_unshifted hp f (Some l) None) =
          outcome (seq (dot_contrast hp (pool_code ?f) (pool_code ?f)) (\<lambda>adc.
                  loss_of_logits hp adc ?M (Some ?W) 2 2 b))"
      using m l by (simp add: construct_unshifted_def check_features_rank3 [OF f] outcome_seq
          select_mask_labels select_anchor_all')
    also have "\<dots> = Inr (ref_loss hp (2 * b) (2 * b) (ref_similarity hp ?f) (ref_weights (flat l) b)
                (ref_mask (flat l) b))"
      by (rule tail) (simp_all add: pool_code_entry)
    finally show ?thesis
      using m by (simp add: anchor_count_of_def)
  next
    assume m: "contrast_mode hp = ''one''"
    let ?a = "\<lparr>nrows = b, ncols = d, entry = (\<lambda>i k. at3 ?f i 0 k)\<rparr>"
    have "outcome (construct_unshifted hp f (Some l) None) =
          outcome (seq (dot_contrast hp ?a (pool_code ?f)) (\<lambda>adc.
                  loss_of_logits hp adc ?M (Some ?W) 1 2 b))"
      using m l by (simp add: construct_unshifted_def check_features_rank3 [OF f] outcome_seq
          select_mask_labels select_anchor_one')
    also have "\<dots> = Inr (ref_loss hp (1 * b) (2 * b) (ref_similarity hp ?f) (ref_weights (flat l) b)
                (ref_mask (flat l) b))"
      by (rule tail) (simp_all add: ref_pool_def)
    finally show ?thesis
      using m by (simp add: anchor_count_of_def)
  qed
qed

section \<open>Reordering the batch\<close>

lemma pool_perm_mod_div:
  assumes "0 < b" "bij_betw p {..<b} {..<b}"
  shows "pool_perm b p i mod b = p (i mod b)" "pool_perm b p i div b = i div b"
proof -
  have "i mod b < b" using assms(1) by simp
  then have "p (i mod b) < b"
    using assms(2) by (auto simp: bij_betw_def)
  then show "pool_perm b p i mod b = p (i mod b)" "pool_perm b p i div b = i div b"
    by (simp_all add: pool_perm_def)
qed

lemma pool_perm_inj:
  assumes "0 < b" "bij_betw p {..<b} {..<b}"
  shows "(pool_perm b p i = pool_perm b p j) = (i = j)"
proof
  assume e: "pool_perm b p i = pool_perm b p j"
  then have "pool_perm b p i mod b = pool_perm b p j mod b" "pool_perm b p i div b = pool_perm b p j div b"
    by simp_all
  then have "p (i mod b) = p (j mod b)" and d: "i div b = j div b"
    by (simp_all add: pool_perm_mod_div [OF assms])
  moreover have "i mod b < b" "j mod b < b" using assms(1) by simp_all
  ultimately have "i mod b = j mod b"
    using assms(2) by (auto simp: bij_betw_def inj_on_def)
  with d show "i = j"
    by (metis div_mult_mod_eq)
qed simp

lemma pool_perm_bij:
  assumes "0 < b" "bij_betw p {..<b} {..<b}"
  shows "bij_betw (pool_perm b p) {..<k * b} {..<k * b}"
proof -
  have inj: "inj_on (pool_perm b p) {..<k * b}"
    by (simp add: inj_on_def pool_perm_inj [OF assms])
  have "pool_perm b p i < k * b" if "i < k * b" for i
  proof -
    from that have "i div b < k"
      using assms(1) by (simp add: less_mult_imp_div_less)
    then have "pool_perm b p i div b < k"
      by (simp add: pool_perm_mod_div [OF assms])
    then show ?thesis
      using assms(1) by (metis div_less_iff_less_mult)
  qed
  then have "pool_perm b p ` {..<k * b} \<subseteq> {..<k * b}"
    by auto
  then have "pool_perm b p ` {..<k * b} = {..<k * b}"
    using inj by (intro endo_inj_surj) simp_all
  with inj show ?thesis
    by (simp add: bij_betw_def)
qed

lemma ref_loss_perm:
  assumes sn: "bij_betw q {..<n} {..<n}" and sr: "bij_betw q {..<rows} {..<rows}"
    and inj: "\<And>i j. (q i = q j) = (i = j)"
    and L: "\<And>i j. i < rows \<Longrightarrow> j < n \<Longrightarrow> L' i j = L (q i) (q j)"
    and W: "\<And>i j. W' i j = W (q i) (q j)"
    and M: "\<And>i j. M' i j = M (q i) (q j)"
  shows "ref_loss hp rows n L' W' M' = ref_loss hp rows n L W M"
proof -
  have ex: "ref_exclusion (q i) (q j) = ref_exclusion i j" for i j
    by (simp add: ref_exclusion_def inj)
  have den: "ref_denominator n L' W' i j = ref_denominator n L W (q i) (q j)" if "i < rows" for i j
  proof -
    have "ref_denominator n L' W' i j =
        (\<Sum>k<n. (fexp (L (q i) (q k)) * ref_exclusion (q i) (q k)) * W (q k) (q j))"
      unfolding ref_denominator_def using that by (intro sum.cong) (simp_all add: L W ex)
    also have "\<dots> = (\<Sum>k<n. (fexp (L (q i) k) * ref_exclusion (q i) k) * W k (q j))"
      by (rule sum.reindex_bij_betw [OF sn])
    finally show ?thesis
      by (simp add: ref_denominator_def)
  qed
  have lp: "ref_log_prob n L' W' i j = ref_log_prob n L W (q i) (q j)" if "i < rows" "j < n" for i j
    using that by (simp add: ref_log_prob_def den L)
  have mlp: "ref_mean_log_prob_pos n L' W' M' i = ref_mean_log_prob_pos n L W M (q i)"
    if "i < rows" for i
  proof -
    have "(\<Sum>j<n. M' i j * ref_log_prob n L' W' i j) =
          (\<Sum>j<n. M (q i) (q j) * ref_log_prob n L W (q i) (q j))"
      using that by (intro sum.cong) (simp_all add: M lp)
    also have "\<dots> = (\<Sum>j<n. M (q i) j * ref_log_prob n L W (q i) j)"
      by (rule sum.reindex_bij_betw [OF sn])
    finally have 1: "(\<Sum>j<n. M' i j * ref_log_prob n L' W' i j) =
          (\<Sum>j<n. M (q i) j * ref_log_prob n L W (q i) j)" .
    have "(\<Sum>j<n. M' i j) = (\<Sum>j<n. M (q i) (q j))"
      by (simp add: M)
    also have "\<dots> = (\<Sum>j<n. M (q i) j)"
      by (rule sum.reindex_bij_betw [OF sn])
    finally have 2: "(\<Sum>j<n. M' i j) = (\<Sum>j<n. M (q i) j)" .
    show ?thesis
      by (simp add: ref_mean_log_prob_pos_def 1 2)
  qed
  let ?c = "Fin (- (temperature hp / base_temperature hp))"
  have "(\<Sum>i<rows. ?c * ref_mean_log_prob_pos n L' W' M' i) =
        (\<Sum>i<rows. ?c * ref_mean_log_prob_pos n L W M (q i))"
    by (intro sum.cong) (simp_all add: mlp)
  also have "\<dots> = (\<Sum>i<rows. ?c * ref_mean_log_prob_pos n L W M i)"
    by (rule sum.reindex_bij_betw [OF sr])
  finally show ?thesis
    by (simp add: ref_loss_def)
qed

lemma fmax_left_commute: "fmax x (fmax y z) = fmax y (fmax x z)"
  by (cases x; cases y; cases z) (simp_all add: max.left_commute)

lemma ref_row_max_perm:
  assumes "bij_betw q {..<n} {..<n}"
  shows "ref_row_max n (\<lambda>i j. g i (q j)) i = ref_row_max n g i"
proof -
  have "mset (map q [0..<n]) = mset [0..<n]"
  proof -
    have "mset (map q [0..<n]) = image_mset q (mset_set {..<n})"
      by (simp add: lessThan_atLeast0)
    also have "\<dots> = mset_set (q ` {..<n})"
      using assms by (intro image_mset_mset_set) (simp add: bij_betw_def)
    also have "\<dots> = mset [0..<n]"
      using assms by (simp add: bij_betw_def lessThan_atLeast0)
    finally show ?thesis .
  qed
  then have "mset (map (g i) (map q [0..<n])) = mset (map (g i) [0..<n])"
    by (metis mset_map)
  then have "fold fmax (map (g i) (map q [0..<n])) = fold fmax (map (g i) [0..<n])"
    by (intro fold_multiset_equiv) (simp_all add: fun_eq_iff fmax_left_commute)
  then show ?thesis
    by (simp add: ref_row_max_def comp_def)
qed

lemma permute_batch_features:
  assumes "shape f = [b, 2, d]" "v < 2" "k < d"
  shows "at3 (as3 b 2 d (flat (permute_batch p f))) i v k = at3 (as3 b 2 d (flat f)) (p i) v k"
proof -
  have o: "(i * 2 + v) * d + k = i * (2 * d) + (v * d + k)" for i
    by (simp add: algebra_simps)
  have "v * d + k < 2 * d"
  proof -
    have "v * d + k < v * d + d" using assms(3) by simp
    also have "\<dots> = (v + 1) * d" by simp
    also have "\<dots> \<le> 2 * d" using assms(2) by (intro mult_le_mono1) simp
    finally show ?thesis .
  qed
  then have "(i * (2 * d) + (v * d + k)) div (2 * d) = i" "(i * (2 * d) + (v * d + k)) mod (2 * d) = v * d + k"
    by simp_all
  then show ?thesis
    using assms(1) by (simp add: as3_def permute_batch_def o Let_def)
qed

lemma permute_batch_labels:
  assumes "shape l = [b]"
  shows "flat (permute_batch p l) i = flat l (p i)"
  using assms by (simp add: permute_batch_def)

lemma permute_batch_shape [simp]: "shape (permute_batch p t) = shape t"
  by (simp add: permute_batch_def Let_def)

lemma ref_logits_perm:
  assumes f: "shape f = [b, 2, d]" and b: "0 < b" and p: "bij_betw p {..<b} {..<b}"
    and i: "i < 2 * b" and j: "j < 2 * b"
  shows "ref_logits hp (as3 b 2 d (flat (permute_batch p f))) i j =
         ref_logits hp (as3 b 2 d (flat f)) (pool_perm b p i) (pool_perm b p j)"
proof -
  let ?g = "as3 b 2 d (flat f)" and ?g' = "as3 b 2 d (flat (permute_batch p f))"
  let ?q = "pool_perm b p"
  have pool: "ref_pool ?g' i k = ref_pool ?g (?q i) k" if "i < 2 * b" "k < d" for i k
  proof -
    from that(1) b have "i div b < 2"
      by (simp add: less_mult_imp_div_less)
    then show ?thesis
      using permute_batch_features [OF f _ that(2), of "i div b" p "i mod b"]
      by (simp add: ref_pool_def pool_perm_mod_div [OF b p])
  qed
  have sim: "ref_similarity hp ?g' i j = ref_similarity hp ?g (?q i) (?q j)"
    if "i < 2 * b" "j < 2 * b" for i j
  proof -
    have "(\<Sum>k<d. ref_pool ?g' i k * ref_pool ?g' j k) =
          (\<Sum>k<d. ref_pool ?g (?q i) k * ref_pool ?g (?q j) k)"
      using that by (intro sum.cong) (simp_all add: pool)
    then show ?thesis
      by (simp add: ref_similarity_def)
  qed
  have "ref_row_max (2 * b) (ref_similarity hp ?g') i =
        fold fmax (map (\<lambda>j. ref_similarity hp ?g (?q i) (?q j)) [0..<2 * b]) NInf"
    unfolding ref_row_max_def by (rule row_max_cong) (rule sim [OF i])
  also have "\<dots> = ref_row_max (2 * b) (\<lambda>r j. ref_similarity hp ?g r (?q j)) (?q i)"
    by (simp add: ref_row_max_def)
  also have "\<dots> = ref_row_max (2 * b) (ref_similarity hp ?g) (?q i)"
    by (rule ref_row_max_perm) (rule pool_perm_bij [OF b p])
  finally show ?thesis
    by (simp add: ref_logits_def sim [OF i j])
qed

section \<open>Positives in every row, and equal labels\<close>

lemma sum_NaN:
  assumes "finite S" "k \<in> S" "g k = NaN"
  shows "sum g S = NaN"
proof -
  have "sum g S = g k + sum g (S - {k})"
    using assms(1,2) by (rule sum.remove)
  then show ?thesis
    by (simp add: assms(3))
qed

lemma is_finite_simps [simp]:
  "is_finite (Fin a)" "\<not> is_finite NaN" "\<not> is_finite PInf" "\<not> is_finite NInf"
  by (simp_all add: is_finite_def)

lemma sum_Fin_lower:
  assumes "finite S" "k0 \<in> S" "\<And>k. k \<in> S \<Longrightarrow> \<exists>r\<ge>0. g k = Fin r" "g k0 = Fin t"
  shows "\<exists>a\<ge>t. sum g S = Fin a"
proof -
  from assms(3) have "\<forall>k\<in>S. \<exists>r. 0 \<le> r \<and> g k = Fin r"
    by blast
  then obtain r where r: "\<And>k. k \<in> S \<Longrightarrow> 0 \<le> r k \<and> g k = Fin (r k)"
    by metis
  have "sum g S = (\<Sum>k\<in>S. Fin (r k))"
    by (intro sum.cong) (simp_all add: r)
  then have 1: "sum g S = Fin (sum r S)"
    by (simp add: sum_Fin)
  have "r k0 = t"
    using r [OF assms(2)] assms(4) by simp
  moreover have "r k0 \<le> sum r S"
    using assms(1,2) r by (intro member_le_sum) simp_all
  ultimately show ?thesis
    using 1 by auto
qed

lemma partner:
  fixes i b :: nat
  assumes "i < 2 * b"
  shows "\<exists>j<2 * b. j \<noteq> i \<and> j mod b = i mod b"
proof (cases "i < b")
  case True
  then have "i + b < 2 * b \<and> i + b \<noteq> i \<and> (i + b) mod b = i mod b"
    by simp
  then show ?thesis by blast
next
  case False
  with assms have "i - b < 2 * b \<and> i - b \<noteq> i \<and> (i - b) mod b = i mod b"
    by (auto simp: le_mod_geq)
  then show ?thesis by blast
qed

lemma ref_mask_Fin:
  "ref_mask lab b i j = Fin (if lab (i mod b) = lab (j mod b) \<and> i \<noteq> j then 1 else 0)"
  by (simp add: ref_mask_def ref_exclusion_def of_bool_f_def)

lemma positive_count:
  fixes i b :: nat
  assumes "i < 2 * b"
  shows "\<exists>c\<ge>1. (\<Sum>j<2 * b. ref_mask lab b i j) = Fin c"
proof -
  from partner [OF assms] obtain j0 where j0: "j0 < 2 * b" "j0 \<noteq> i" "j0 mod b = i mod b"
    by blast
  show ?thesis
  proof (rule sum_Fin_lower [where ?k0.0 = j0])
    show "ref_mask lab b i j0 = Fin 1"
      using j0 by (simp add: ref_mask_Fin)
    show "\<exists>r\<ge>0. ref_mask lab b i k = Fin r" for k
      by (simp add: ref_mask_Fin)
  qed (use j0 in simp_all)
qed

lemma ref_logits_Fin:
  assumes "temperature hp \<noteq> 0" "0 < n_views f * bsz f"
  shows "\<exists>lg. ref_logits hp f = (\<lambda>i j. Fin (lg i j))"
proof -
  define s where "s = (\<lambda>i j. (\<Sum>k<emb_dim f. ref_pool f i k * ref_pool f j k) / temperature hp)"
  have sim: "ref_similarity hp f = (\<lambda>i j. Fin (s i j))"
    using assms(1) by (simp add: ref_similarity_def s_def fun_eq_iff)
  have "\<exists>m. ref_row_max (n_views f * bsz f) (\<lambda>i j. Fin (s i j)) i = Fin m" for i
    by (rule ref_row_max_Fin) (rule assms(2))
  then obtain m where m: "\<And>i. ref_row_max (n_views f * bsz f) (\<lambda>i j. Fin (s i j)) i = Fin (m i)"
    by metis
  have "ref_logits hp f = (\<lambda>i j. Fin (s i j - m i))"
    by (simp add: ref_logits_def sim m fun_eq_iff)
  then show ?thesis
    by (intro exI [of _ "\<lambda>i j. s i j - m i"])
qed

lemma fdiv_NaN [simp]: "c \<noteq> 0 \<Longrightarrow> fdiv NaN (Fin c) = NaN"
  by simp

lemma ref_loss_equal_labels:
  fixes b rows :: nat
  assumes b: "0 < b" and e: "\<And>j. j < b \<Longrightarrow> lab j = lab 0"
    and rows: "0 < rows" "rows \<le> 2 * b"
  shows "ref_loss hp rows (2 * b) (\<lambda>i j. Fin (lg i j)) (ref_weights lab b) (ref_mask lab b) = NaN"
proof -
  let ?L = "\<lambda>i j. Fin (lg i j)"
  have eq: "lab (i mod b) = lab (j mod b)" for i j
    using e [of "i mod b"] e [of "j mod b"] b by simp
  have w: "ref_weights lab b k j = Fin 0" for k j
    by (simp add: ref_weights_def eq [of k j])
  have "ref_denominator (2 * b) ?L (ref_weights lab b) i j = (\<Sum>k<2 * b. Fin 0)" for i j
    unfolding ref_denominator_def by (intro sum.cong) (simp_all add: w ref_exclusion_Fin)
  then have den: "ref_denominator (2 * b) ?L (ref_weights lab b) i j = Fin 0" for i j
    by (simp add: sum_Fin)
  have lp: "ref_log_prob (2 * b) ?L (ref_weights lab b) i j = PInf" for i j
    by (simp add: ref_log_prob_def den)
  have m: "ref_mean_log_prob_pos (2 * b) ?L (ref_weights lab b) (ref_mask lab b) i = NaN"
    if "i < 2 * b" for i
  proof -
    have "ref_mask lab b i i * PInf = NaN"
      by (simp add: ref_mask_Fin)
    then have n: "(\<Sum>j<2 * b. ref_mask lab b i j * ref_log_prob (2 * b) ?L (ref_weights lab b) i j) = NaN"
      using that by (intro sum_NaN [of _ i]) (simp_all add: lp)
    from positive_count [OF that, of lab] obtain c where
      c: "1 \<le> c" "(\<Sum>j<2 * b. ref_mask lab b i j) = Fin c"
      by blast
    from c show ?thesis
      by (simp add: ref_mean_log_prob_pos_def n)
  qed
  from rows have "0 < 2 * b" by simp
  then have "Fin (- (temperature hp / base_temperature hp)) *
      ref_mean_log_prob_pos (2 * b) ?L (ref_weights lab b) (ref_mask lab b) 0 = NaN"
    by (simp add: m)
  then have "(\<Sum>i<rows. Fin (- (temperature hp / base_temperature hp)) *
      ref_mean_log_prob_pos (2 * b) ?L (ref_weights lab b) (ref_mask lab b) i) = NaN"
    using rows(1) by (intro sum_NaN [of _ 0]) simp_all
  then show ?thesis
    using rows(1) by (simp add: ref_loss_def)
qed

lemma pool_code_rows:
  "entry (pool_code f) i k = (if i < bsz f then at3 f i 0 k else at3 f (i - bsz f) 1 k)"
  by (simp add: pool_code_def vstack_def)

section \<open>The claims\<close>

text \<open>
  C1. With features of shape \<open>[B, 2, D]\<close>, labels and no mask, and mode \<open>all\<close>, the loss
  that \<open>construct\<close> returns is the reference formula: the weights are the absolute
  label differences on the pool of \<open>2B\<close>, the denominator is the matrix product of the
  self-excluded \<open>exp(logits)\<close> with the weights, \<open>log_prob\<close> is the logits minus its
  logarithm, the mean over positives divides the masked sum by the row sum of the tiled,
  self-excluded mask, and the loss is the uniform mean over the \<open>2B\<close> anchor rows of
  \<open>- (temperature / base_temperature)\<close> times that mean. The batch is not empty and
  \<open>base_temperature\<close> is not zero.
\<close>

theorem construct_is_reference_formula:
  assumes "shape features = [b, 2, d]" and "prod_shape (shape labels) = b" and "0 < b"
    and "contrast_mode hp = ''all''" and "base_temperature hp \<noteq> 0"
  shows "outcome (construct hp features (Some labels) None) =
         Inr (ref_loss hp (2 * b) (2 * b) (ref_logits hp (as3 b 2 d (flat features)))
                (ref_weights (flat labels) b) (ref_mask (flat labels) b))"
  using construct_labels_closed [of features b d labels hp] assms
  by (simp add: anchor_count_of_def)

theorem construct_is_reference_formula_witness:
  "shape ex_features = [2, 2, 1] \<and> prod_shape (shape ex_labels) = 2 \<and> (0::nat) < 2
   \<and> contrast_mode default_hparams = ''all'' \<and> base_temperature default_hparams \<noteq> 0
   \<and> outcome (construct default_hparams ex_features (Some ex_labels) None) =
       Inr (ref_loss default_hparams (2 * 2) (2 * 2)
              (ref_logits default_hparams (as3 2 2 1 (flat ex_features)))
              (ref_weights (flat ex_labels) 2) (ref_mask (flat ex_labels) 2))"
  using construct_is_reference_formula [of ex_features 2 1 ex_labels default_hparams]
  by (simp add: ex_features_def ex_labels_def default_hparams_def prod_shape_def)

text \<open>
  C2. With neither labels nor mask the docstring promises the unsupervised SimCLR loss
  with the identity as positive mask. The run does not return it: the identity mask is
  built, but \<open>weights\<close> is assigned only in the labels branch, and line 84 reads it
  unbound. Evaluated on two samples with two views each and the default hyperparameters.
\<close>

theorem construct_no_labels_no_mask_raises:
  "outcome (construct default_hparams ex_features None None) = Inl (UnboundLocalError ''weights'')"
  by (simp add: construct_def ex_features_def default_hparams_def check_features_def as3_def
    select_mask_def eye_def select_anchor_def unbind1_def cat0_def vstack_def
    upt_2 dot_contrast_def transpose_t_def matmul_def pointwise_def stabilise_def max_axis1_def
    broadcast2_def loss_of_logits_def mask_out_self_def tile_def reduce_loss_def)

text \<open>
  C3. With a mask of shape \<open>[bsz, bsz]\<close> and no labels, on features of rank at least 3
  with at least one sample and one view and a valid mode, the run returns no loss: it
  fails where line 84 reads \<open>weights\<close>, which that path never assigns.
\<close>

theorem construct_mask_only_raises:
  assumes "3 \<le> length (shape features)" and "0 < shape features ! 0" and "0 < shape features ! 1"
    and "nrows m = shape features ! 0" and "ncols m = shape features ! 0"
    and "contrast_mode hp = ''all'' \<or> contrast_mode hp = ''one''"
  shows "outcome (construct hp features None (Some m)) = Inl (UnboundLocalError ''weights'')"
proof -
  let ?g = "as3 (shape features ! 0) (shape features ! 1) (prod_shape (drop 2 (shape features)))
              (flat features)"
  have 1: "outcome (check_features features) = Inr ?g"
    by (rule check_features_outcome) (use assms in auto)
  show ?thesis
    by (rule construct_mask_path [OF 1]) (use assms in simp_all)
qed

theorem construct_mask_only_raises_witness:
  "3 \<le> length (shape ex_features) \<and> 0 < shape ex_features ! 0 \<and> 0 < shape ex_features ! 1
   \<and> nrows ex_mask = shape ex_features ! 0 \<and> ncols ex_mask = shape ex_features ! 0
   \<and> contrast_mode default_hparams = ''all''
   \<and> outcome (construct default_hparams ex_features None (Some ex_mask)) =
       Inl (UnboundLocalError ''weights'')"
  using construct_mask_only_raises [of ex_features ex_mask default_hparams]
  by (simp add: ex_features_def ex_mask_def default_hparams_def)

text \<open>
  C4, as the code has it. With both labels and mask, on features of rank at least 3,
  the run raises the \<open>ValueError\<close> of line 43. For rank 3
  no tensor operation has run before it; for a higher rank exactly one has, the view of
  line 39, which comes before the check of the arguments.
\<close>

theorem construct_both_raises:
  assumes "3 \<le> length (shape features)"
  shows "outcome (construct hp features (Some labels) (Some m)) =
           Inl (ValueError ''Cannot define both `labels` and `mask`'')
         \<and> ops (construct hp features (Some labels) (Some m)) =
           (if 3 < length (shape features) then [OpView] else [])"
  using assms by (auto simp: construct_def check_features_def Let_def select_mask_def)

theorem construct_both_raises_witness:
  "3 \<le> length (shape ex_features)
   \<and> outcome (construct default_hparams ex_features (Some ex_labels) (Some ex_mask)) =
         Inl (ValueError ''Cannot define both `labels` and `mask`'')
   \<and> ops (construct default_hparams ex_features (Some ex_labels) (Some ex_mask)) = []"
  using construct_both_raises [of ex_features default_hparams ex_labels ex_mask]
  by (simp add: ex_features_def)

text \<open>
  C4 as stated fails for a rank above 3: on the rank-4 example the view has already
  run when the conflict is raised.
\<close>

theorem construct_both_rank4_view_first:
  "outcome (construct default_hparams ex_features_rank4 (Some ex_labels1) (Some ex_mask)) =
     Inl (ValueError ''Cannot define both `labels` and `mask`'')
   \<and> ops (construct default_hparams ex_features_rank4 (Some ex_labels1) (Some ex_mask)) \<noteq> []"
  by (simp add: construct_def check_features_def Let_def select_mask_def ex_features_rank4_def)

text \<open>
  C5. With labels only, the mask of line 50 is 1 exactly where the two labels are
  equal and 0 elsewhere; after lines 76 to 80 the tiled mask is that mask repeated, with
  every diagonal entry set to 0, so no anchor is its own positive.
\<close>

theorem labels_mask_equal_labels_no_self:
  assumes "prod_shape (shape labels) = b"
  shows "\<exists>m w. outcome (select_mask b (Some labels) None) = Inr (m, w)
           \<and> nrows m = b \<and> ncols m = b
           \<and> (\<forall>i<b. \<forall>j<b. entry m i j = (if flat labels i = flat labels j then Fin 1 else Fin 0))
           \<and> (\<exists>m' lm. outcome (mask_out_self m ac cc) = Inr (m', lm)
                 \<and> nrows m' = ac * b \<and> ncols m' = cc * b
                 \<and> (\<forall>i<ac * b. \<forall>j<cc * b.
                       entry m' i j = (if i = j then Fin 0 else entry m (i mod b) (j mod b))))"
  using assms
  by (simp add: select_mask_labels mask_out_self_outcome ref_exclusion_def of_bool_f_def)

theorem labels_mask_equal_labels_no_self_witness:
  "prod_shape (shape ex_labels) = 2
   \<and> (\<exists>m w. outcome (select_mask 2 (Some ex_labels) None) = Inr (m, w)
           \<and> nrows m = 2 \<and> ncols m = 2
           \<and> (\<forall>i<2. \<forall>j<2. entry m i j = (if flat ex_labels i = flat ex_labels j then Fin 1 else Fin 0))
           \<and> (\<exists>m' lm. outcome (mask_out_self m 2 2) = Inr (m', lm)
                 \<and> nrows m' = 2 * 2 \<and> ncols m' = 2 * 2
                 \<and> (\<forall>i<2 * 2. \<forall>j<2 * 2.
                       entry m' i j = (if i = j then Fin 0 else entry m (i mod 2) (j mod 2)))))"
  using labels_mask_equal_labels_no_self [of ex_labels 2 2 2]
  by (simp add: ex_labels_def)

text \<open>
  C7. With two views the contrast pool has \<open>2 * bsz\<close> rows, the slice of view 0
  followed by that of view 1. Mode \<open>one\<close> takes the \<open>bsz\<close> rows of view 0 as anchors,
  with \<open>anchor_count = 1\<close>; mode \<open>all\<close> takes the whole pool as anchors, with
  \<open>anchor_count = 2\<close>; any other mode raises the unknown-mode \<open>ValueError\<close>. In both
  valid modes the run on the labels path returns one scalar: the mean of the reference
  formula over \<open>bsz\<close> anchor rows in mode \<open>one\<close> and over \<open>2 * bsz\<close> in mode \<open>all\<close>.
\<close>

theorem contrast_modes:
  assumes f: "shape features = [b, 2, d]" and l: "prod_shape (shape labels) = b"
  shows "(contrast_mode hp = ''one'' \<longrightarrow>
            (\<exists>a c. outcome (select_anchor hp (as3 b 2 d (flat features))) = Inr (a, c, 1, 2)
               \<and> nrows a = b \<and> ncols a = d
               \<and> (\<forall>i<b. \<forall>k<d. entry a i k = at3 (as3 b 2 d (flat features)) i 0 k)
               \<and> nrows c = 2 * b \<and> ncols c = d
               \<and> (\<forall>i<2 * b. \<forall>k<d. entry c i k =
                     (if i < b then at3 (as3 b 2 d (flat features)) i 0 k
                      else at3 (as3 b 2 d (flat features)) (i - b) 1 k))))
       \<and> (contrast_mode hp = ''all'' \<longrightarrow>
            (\<exists>c. outcome (select_anchor hp (as3 b 2 d (flat features))) = Inr (c, c, 2, 2)
               \<and> nrows c = 2 * b \<and> ncols c = d
               \<and> (\<forall>i<2 * b. \<forall>k<d. entry c i k =
                     (if i < b then at3 (as3 b 2 d (flat features)) i 0 k
                      else at3 (as3 b 2 d (flat features)) (i - b) 1 k))))
       \<and> (contrast_mode hp \<noteq> ''one'' \<and> contrast_mode hp \<noteq> ''all'' \<longrightarrow>
            outcome (select_anchor hp (as3 b 2 d (flat features))) =
              Inl (ValueError (''Unknown mode: '' @ contrast_mode hp))
            \<and> outcome (construct hp features (Some labels) None) =
              Inl (ValueError (''Unknown mode: '' @ contrast_mode hp)))
       \<and> ((contrast_mode hp = ''one'' \<or> contrast_mode hp = ''all'') \<and> 0 < b
             \<and> base_temperature hp \<noteq> 0 \<longrightarrow>
            outcome (construct hp features (Some labels) None) =
              Inr (ref_loss hp ((if contrast_mode hp = ''one'' then 1 else 2) * b) (2 * b)
                     (ref_logits hp (as3 b 2 d (flat features)))
                     (ref_weights (flat labels) b) (ref_mask (flat labels) b)))"
proof (intro conjI impI)
  assume "contrast_mode hp = ''one''"
  then show "\<exists>a c. outcome (select_anchor hp (as3 b 2 d (flat features))) = Inr (a, c, 1, 2)
               \<and> nrows a = b \<and> ncols a = d
               \<and> (\<forall>i<b. \<forall>k<d. entry a i k = at3 (as3 b 2 d (flat features)) i 0 k)
               \<and> nrows c = 2 * b \<and> ncols c = d
               \<and> (\<forall>i<2 * b. \<forall>k<d. entry c i k =
                     (if i < b then at3 (as3 b 2 d (flat features)) i 0 k
                      else at3 (as3 b 2 d (flat features)) (i - b) 1 k))"
    by (simp add: select_anchor_one' pool_code_rows)
next
  assume "contrast_mode hp = ''all''"
  then show "\<exists>c. outcome (select_anchor hp (as3 b 2 d (flat features))) = Inr (c, c, 2, 2)
               \<and> nrows c = 2 * b \<and> ncols c = d
               \<and> (\<forall>i<2 * b. \<forall>k<d. entry c i k =
                     (if i < b then at3 (as3 b 2 d (flat features)) i 0 k
                      else at3 (as3 b 2 d (flat features)) (i - b) 1 k))"
    by (simp add: select_anchor_all' pool_code_rows)
next
  assume "contrast_mode hp \<noteq> ''one'' \<and> contrast_mode hp \<noteq> ''all''"
  then show e: "outcome (select_anchor hp (as3 b 2 d (flat features))) =
      Inl (ValueError (''Unknown mode: '' @ contrast_mode hp))"
    by (simp add: select_anchor_def unbind1_def cat0_def upt_2 Let_def)
  then show "outcome (construct hp features (Some labels) None) =
              Inl (ValueError (''Unknown mode: '' @ contrast_mode hp))"
    using l by (simp add: construct_via_tail construct_tail_def check_features_rank3 [OF f]
        outcome_seq select_mask_labels)
next
  assume "(contrast_mode hp = ''one'' \<or> contrast_mode hp = ''all'') \<and> 0 < b
             \<and> base_temperature hp \<noteq> 0"
  then show "outcome (construct hp features (Some labels) None) =
              Inr (ref_loss hp ((if contrast_mode hp = ''one'' then 1 else 2) * b) (2 * b)
                     (ref_logits hp (as3 b 2 d (flat features)))
                     (ref_weights (flat labels) b) (ref_mask (flat labels) b))"
    using construct_labels_closed [OF f l, of hp] by (auto simp: anchor_count_of_def)
qed

theorem contrast_modes_witness:
  "shape ex_features = [2, 2, 1] \<and> prod_shape (shape ex_labels) = 2
   \<and> contrast_mode hparams_one = ''one''
   \<and> (\<exists>a c. outcome (select_anchor hparams_one (as3 2 2 1 (flat ex_features))) = Inr (a, c, 1, 2)
         \<and> nrows a = 2 \<and> ncols a = 1
         \<and> entry a 0 0 = 0 \<and> entry a 1 0 = 2
         \<and> nrows c = 2 * 2 \<and> ncols c = 1
         \<and> entry c 0 0 = 0 \<and> entry c 1 0 = 2 \<and> entry c 2 0 = 1 \<and> entry c 3 0 = 3)
   \<and> contrast_mode default_hparams = ''all''
   \<and> (\<exists>c. outcome (select_anchor default_hparams (as3 2 2 1 (flat ex_features))) = Inr (c, c, 2, 2)
         \<and> nrows c = 2 * 2 \<and> ncols c = 1
         \<and> entry c 0 0 = 0 \<and> entry c 1 0 = 2 \<and> entry c 2 0 = 1 \<and> entry c 3 0 = 3)
   \<and> contrast_mode hparams_other \<noteq> ''one'' \<and> contrast_mode hparams_other \<noteq> ''all''
   \<and> outcome (construct hparams_other ex_features (Some ex_labels) None) =
        Inl (ValueError ''Unknown mode: any'')
   \<and> base_temperature hparams_one \<noteq> 0 \<and> base_temperature default_hparams \<noteq> 0
   \<and> outcome (construct hparams_one ex_features (Some ex_labels) None) =
        Inr (ref_loss hparams_one 2 4 (ref_logits hparams_one (as3 2 2 1 (flat ex_features)))
               (ref_weights (flat ex_labels) 2) (ref_mask (flat ex_labels) 2))
   \<and> outcome (construct default_hparams ex_features (Some ex_labels) None) =
        Inr (ref_loss default_hparams 4 4 (ref_logits default_hparams (as3 2 2 1 (flat ex_features)))
               (ref_weights (flat ex_labels) 2) (ref_mask (flat ex_labels) 2))"
proof -
  have f: "shape ex_features = [2, 2, 1]" and l: "prod_shape (shape ex_labels) = 2"
    by (simp_all add: ex_features_def ex_labels_def)
  have m: "contrast_mode hparams_one = ''one''" "contrast_mode default_hparams = ''all''"
    "contrast_mode hparams_other = ''any''"
    "base_temperature hparams_one \<noteq> 0" "base_temperature default_hparams \<noteq> 0"
    by (simp_all add: hparams_one_def default_hparams_def hparams_other_def)
  have fl: "flat ex_features = real"
    by (simp add: ex_features_def)
  from contrast_modes [OF f l, of hparams_one] m
  obtain a c where one: "outcome (select_anchor hparams_one (as3 2 2 1 (flat ex_features))) = Inr (a, c, 1, 2)"
    "nrows a = 2" "ncols a = 1" "\<forall>i<2. \<forall>k<1. entry a i k = at3 (as3 2 2 1 (flat ex_features)) i 0 k"
    "nrows c = 2 * 2" "ncols c = 1"
    "\<forall>i<2 * 2. \<forall>k<1. entry c i k =
       (if i < 2 then at3 (as3 2 2 1 (flat ex_features)) i 0 k
        else at3 (as3 2 2 1 (flat ex_features)) (i - 2) 1 k)"
    by auto
  from one(4) have a: "entry a 0 0 = 0" "entry a 1 0 = 2"
    by (simp_all add: as3_def fl)
  from one(7) have "entry c 0 0 = 0 \<and> entry c 1 0 = 2 \<and> entry c 2 0 = 1 \<and> entry c 3 0 = 3"
    by (simp add: as3_def fl)
  with one a have p1: "\<exists>a c. outcome (select_anchor hparams_one (as3 2 2 1 (flat ex_features))) = Inr (a, c, 1, 2)
         \<and> nrows a = 2 \<and> ncols a = 1
         \<and> entry a 0 0 = 0 \<and> entry a 1 0 = 2
         \<and> nrows c = 2 * 2 \<and> ncols c = 1
         \<and> entry c 0 0 = 0 \<and> entry c 1 0 = 2 \<and> entry c 2 0 = 1 \<and> entry c 3 0 = 3"
    by blast
  from contrast_modes [OF f l, of default_hparams] m
  obtain c' where all: "outcome (select_anchor default_hparams (as3 2 2 1 (flat ex_features))) = Inr (c', c', 2, 2)"
    "nrows c' = 2 * 2" "ncols c' = 1"
    "\<forall>i<2 * 2. \<forall>k<1. entry c' i k =
       (if i < 2 then at3 (as3 2 2 1 (flat ex_features)) i 0 k
        else at3 (as3 2 2 1 (flat ex_features)) (i - 2) 1 k)"
    by auto
  from all(4) have "entry c' 0 0 = 0 \<and> entry c' 1 0 = 2 \<and> entry c' 2 0 = 1 \<and> entry c' 3 0 = 3"
    by (simp add: as3_def fl)
  with all have p2: "\<exists>c. outcome (select_anchor default_hparams (as3 2 2 1 (flat ex_features))) = Inr (c, c, 2, 2)
         \<and> nrows c = 2 * 2 \<and> ncols c = 1
         \<and> entry c 0 0 = 0 \<and> entry c 1 0 = 2 \<and> entry c 2 0 = 1 \<and> entry c 3 0 = 3"
    by blast
  show ?thesis
    using contrast_modes [OF f l, of hparams_one] contrast_modes [OF f l, of default_hparams]
      contrast_modes [OF f l, of hparams_other] f l m p1 p2
    by simp
qed

text \<open>
  C10. The check of lines 47 to 49 sees only the number of elements of \<open>labels\<close>,
  whatever its rank or shape: the labels branch yields the mask and the weights when that
  number is \<open>batch_size\<close>, and raises the \<open>ValueError\<close> of line 49 otherwise; and the
  run of \<open>construct\<close> ends in that \<open>ValueError\<close> exactly when the number differs from
  \<open>batch_size\<close>.
\<close>

theorem labels_check_counts_elements:
  assumes "3 \<le> length (shape features)"
  shows "outcome (select_mask b (Some labels) None) =
           (if prod_shape (shape labels) = b
            then Inr (\<lparr>nrows = b, ncols = b,
                       entry = (\<lambda>i j. of_bool_f (flat labels i = flat labels j))\<rparr>,
                      Some \<lparr>nrows = 2 * b, ncols = 2 * b,
                            entry = (\<lambda>i j. Fin \<bar>flat labels (i mod b) - flat labels (j mod b)\<bar>)\<rparr>)
            else Inl (ValueError ''Num of labels does not match num of features''))
         \<and> (outcome (construct hp features (Some labels) None) =
                Inl (ValueError ''Num of labels does not match num of features''))
             = (prod_shape (shape labels) \<noteq> shape features ! 0)"
proof -
  let ?g = "as3 (shape features ! 0) (shape features ! 1) (prod_shape (drop 2 (shape features)))
              (flat features)"
  let ?e = "ValueError ''Num of labels does not match num of features''"
  have 1: "outcome (check_features features) = Inr ?g"
    by (rule check_features_outcome) (use assms in auto)
  have "(outcome (construct hp features (Some labels) None) = Inl ?e)
        = (prod_shape (shape labels) \<noteq> shape features ! 0)"
  proof (cases "prod_shape (shape labels) = shape features ! 0")
    case False
    then show ?thesis
      by (simp add: construct_def outcome_seq 1 select_mask_check Let_def)
  next
    case True
    have "raises_only (\<lambda>e. e \<noteq> ?e) (construct_tail hp ?g m w)" for m w
      by (rule raises_only_tail) simp_all
    then have "outcome (construct_tail hp ?g m w) \<noteq> Inl ?e" for m w
      by (auto simp: raises_only_def)
    then show ?thesis
      using True by (simp add: construct_via_tail outcome_seq 1 select_mask_check)
  qed
  then show ?thesis
    by (simp add: select_mask_check)
qed

theorem labels_check_counts_elements_witness:
  "3 \<le> length (shape ex_features)
   \<and> prod_shape (shape ex_labels1) \<noteq> shape ex_features ! 0
   \<and> outcome (select_mask 2 (Some ex_labels1) None) =
        Inl (ValueError ''Num of labels does not match num of features'')
   \<and> outcome (construct default_hparams ex_features (Some ex_labels1) None) =
        Inl (ValueError ''Num of labels does not match num of features'')"
  using labels_check_counts_elements [of ex_features 2 ex_labels1 default_hparams]
  by (simp add: ex_features_def ex_labels1_def)

text \<open>
  C6. On the labels path (two views, a non-empty batch, a valid mode, temperature and
  \<open>base_temperature\<close> not zero) the run returns a loss, and the run without lines 72
  and 73, on the unshifted similarities, returns the same one.
\<close>

theorem row_max_shift_changes_nothing:
  assumes "shape features = [b, 2, d]" and "prod_shape (shape labels) = b" and "0 < b"
    and "temperature hp \<noteq> 0" and "base_temperature hp \<noteq> 0"
    and "contrast_mode hp = ''all'' \<or> contrast_mode hp = ''one''"
  shows "\<exists>x. outcome (construct hp features (Some labels) None) = Inr x
           \<and> outcome (construct_unshifted hp features (Some labels) None) = Inr x"
  using construct_labels_closed [of features b d labels hp]
    construct_unshifted_labels_closed [of features b d labels hp]
    ref_loss_shift [of hp "as3 b 2 d (flat features)"] assms
  by simp

theorem row_max_shift_changes_nothing_witness:
  "shape ex_features = [2, 2, 1] \<and> prod_shape (shape ex_labels) = 2 \<and> (0::nat) < 2
   \<and> temperature default_hparams \<noteq> 0 \<and> base_temperature default_hparams \<noteq> 0
   \<and> contrast_mode default_hparams = ''all''
   \<and> (\<exists>x. outcome (construct default_hparams ex_features (Some ex_labels) None) = Inr x
           \<and> outcome (construct_unshifted default_hparams ex_features (Some ex_labels) None) = Inr x)"
  using row_max_shift_changes_nothing [of ex_features 2 1 ex_labels default_hparams]
  by (simp add: ex_features_def ex_labels_def default_hparams_def)

text \<open>
  C8. On the labels path (features of shape \<open>[B, 2, D]\<close>, labels of shape \<open>[B]\<close>, a
  non-empty batch, a valid mode, \<open>base_temperature\<close> not zero) the run returns a loss,
  and for every permutation of the batch indices the run on the features and labels
  reordered by it returns the same loss.
\<close>

theorem batch_order_is_irrelevant:
  assumes f: "shape features = [b, 2, d]" and l: "shape labels = [b]" and b: "0 < b"
    and p: "bij_betw p {..<b} {..<b}"
    and bt: "base_temperature hp \<noteq> 0"
    and mode: "contrast_mode hp = ''all'' \<or> contrast_mode hp = ''one''"
  shows "\<exists>x. outcome (construct hp features (Some labels) None) = Inr x
           \<and> outcome (construct hp (permute_batch p features) (Some (permute_batch p labels)) None)
               = Inr x"
proof -
  let ?g = "as3 b 2 d (flat features)" and ?g' = "as3 b 2 d (flat (permute_batch p features))"
  let ?q = "pool_perm b p"
  let ?rows = "anchor_count_of hp * b"
  have n: "prod_shape (shape labels) = b"
    by (simp add: l)
  have 1: "outcome (construct hp features (Some labels) None) =
      Inr (ref_loss hp ?rows (2 * b) (ref_logits hp ?g) (ref_weights (flat labels) b)
            (ref_mask (flat labels) b))"
    by (rule construct_labels_closed [OF f n b bt mode])
  have 2: "outcome (construct hp (permute_batch p features) (Some (permute_batch p labels)) None) =
      Inr (ref_loss hp ?rows (2 * b) (ref_logits hp ?g') (ref_weights (flat (permute_batch p labels)) b)
            (ref_mask (flat (permute_batch p labels)) b))"
    by (rule construct_labels_closed) (simp_all add: f n b bt mode)
  have rows: "bij_betw ?q {..<?rows} {..<?rows}"
    by (rule pool_perm_bij [OF b p])
  have le: "i < 2 * b" if "i < ?rows" for i
    using that by (simp add: anchor_count_of_def split: if_splits)
  have 3: "ref_loss hp ?rows (2 * b) (ref_logits hp ?g') (ref_weights (flat (permute_batch p labels)) b)
            (ref_mask (flat (permute_batch p labels)) b) =
        ref_loss hp ?rows (2 * b) (ref_logits hp ?g) (ref_weights (flat labels) b)
            (ref_mask (flat labels) b)"
  proof (rule ref_loss_perm [where q = ?q])
    show "bij_betw ?q {..<2 * b} {..<2 * b}"
      by (rule pool_perm_bij [OF b p])
    show "bij_betw ?q {..<?rows} {..<?rows}"
      by (rule rows)
    show "(?q i = ?q j) = (i = j)" for i j
      by (rule pool_perm_inj [OF b p])
    show "ref_logits hp ?g' i j = ref_logits hp ?g (?q i) (?q j)" if "i < ?rows" "j < 2 * b" for i j
      by (rule ref_logits_perm [OF f b p le [OF that(1)] that(2)])
    show "ref_weights (flat (permute_batch p labels)) b i j = ref_weights (flat labels) b (?q i) (?q j)"
      for i j
      by (simp add: ref_weights_def permute_batch_labels [OF l] pool_perm_mod_div [OF b p])
    show "ref_mask (flat (permute_batch p labels)) b i j = ref_mask (flat labels) b (?q i) (?q j)"
      for i j
      by (simp add: ref_mask_def permute_batch_labels [OF l] pool_perm_mod_div [OF b p]
          ref_exclusion_def pool_perm_inj [OF b p])
  qed
  show ?thesis
    by (simp add: 1 2 3)
qed

theorem batch_order_is_irrelevant_witness:
  "shape ex_features = [2, 2, 1] \<and> shape ex_labels = [2] \<and> (0::nat) < 2
   \<and> bij_betw swap01 {..<2} {..<2}
   \<and> base_temperature default_hparams \<noteq> 0 \<and> contrast_mode default_hparams = ''all''
   \<and> (\<exists>x. outcome (construct default_hparams ex_features (Some ex_labels) None) = Inr x
           \<and> outcome (construct default_hparams (permute_batch swap01 ex_features)
                 (Some (permute_batch swap01 ex_labels)) None) = Inr x)"
proof -
  have s: "{..<2::nat} = {0, 1}" by auto
  have p: "bij_betw swap01 {..<2} {..<2}"
    unfolding s by (simp add: bij_betw_def swap01_def)
  show ?thesis
    using batch_order_is_irrelevant [of ex_features 2 1 ex_labels swap01 default_hparams] p
    by (simp add: ex_features_def ex_labels_def default_hparams_def)
qed

text \<open>
  C9, as the code has it. On the labels path with two views every anchor row has at
  least one positive, its other view, so the divisor of line 88 is at least 1 in every
  row and the division by zero is not reached. The loss need not be finite for that:
  whenever all labels are equal (and \<open>temperature\<close> and \<open>base_temperature\<close> are not zero)
  every ordinal weight is 0, line 85 takes the logarithm of 0, and the run returns NaN
  without raising.
\<close>

theorem positives_in_every_row_and_equal_labels:
  assumes "shape features = [b, 2, d]" and "prod_shape (shape labels) = b" and "0 < b"
    and "contrast_mode hp = ''all'' \<or> contrast_mode hp = ''one''"
  shows "(\<exists>m w m' lm' s. outcome (select_mask b (Some labels) None) = Inr (m, w)
            \<and> outcome (mask_out_self m (anchor_count_of hp) 2) = Inr (m', lm')
            \<and> outcome (sum_axis1 m') = Inr s
            \<and> (\<forall>i<anchor_count_of hp * b. \<exists>c\<ge>1. entry s 0 i = Fin c))
         \<and> (temperature hp \<noteq> 0 \<and> base_temperature hp \<noteq> 0
              \<and> (\<forall>j<b. flat labels j = flat labels 0)
            \<longrightarrow> outcome (construct hp features (Some labels) None) = Inr NaN)"
proof (intro conjI impI)
  have le: "i < 2 * b" if "i < anchor_count_of hp * b" for i
    using that by (simp add: anchor_count_of_def split: if_splits)
  have cnt: "\<exists>c\<ge>1. (\<Sum>k<2 * b. of_bool_f (flat labels (i mod b) = flat labels (k mod b)) * ref_exclusion i k)
      = Fin c" if "i < anchor_count_of hp * b" for i
    using positive_count [OF le [OF that], of "flat labels"] by (simp add: ref_mask_def)
  from assms show "\<exists>m w m' lm' s. outcome (select_mask b (Some labels) None) = Inr (m, w)
            \<and> outcome (mask_out_self m (anchor_count_of hp) 2) = Inr (m', lm')
            \<and> outcome (sum_axis1 m') = Inr s
            \<and> (\<forall>i<anchor_count_of hp * b. \<exists>c\<ge>1. entry s 0 i = Fin c)"
    by (simp add: select_mask_labels mask_out_self_outcome sum_axis1_def cnt)
next
  assume t: "temperature hp \<noteq> 0 \<and> base_temperature hp \<noteq> 0
              \<and> (\<forall>j<b. flat labels j = flat labels 0)"
  then have t1: "temperature hp \<noteq> 0" and t2: "base_temperature hp \<noteq> 0"
    and t3: "\<And>j. j < b \<Longrightarrow> flat labels j = flat labels 0"
    by blast+
  have 1: "outcome (construct hp features (Some labels) None) =
      Inr (ref_loss hp (anchor_count_of hp * b) (2 * b) (ref_logits hp (as3 b 2 d (flat features)))
            (ref_weights (flat labels) b) (ref_mask (flat labels) b))"
    by (rule construct_labels_closed [OF assms(1,2,3) t2 assms(4)])
  have "\<exists>lg. ref_logits hp (as3 b 2 d (flat features)) = (\<lambda>i j. Fin (lg i j))"
    by (rule ref_logits_Fin [OF t1]) (use assms(3) in simp)
  then obtain lg where lg: "ref_logits hp (as3 b 2 d (flat features)) = (\<lambda>i j. Fin (lg i j))"
    by blast
  have rows: "0 < anchor_count_of hp * b" "anchor_count_of hp * b \<le> 2 * b"
    using assms(3) by (simp_all add: anchor_count_of_def)
  have "ref_loss hp (anchor_count_of hp * b) (2 * b) (\<lambda>i j. Fin (lg i j))
            (ref_weights (flat labels) b) (ref_mask (flat labels) b) = NaN"
    by (rule ref_loss_equal_labels [where lab = "flat labels", OF assms(3) t3 rows])
  then show "outcome (construct hp features (Some labels) None) = Inr NaN"
    by (simp add: 1 lg)
qed

theorem positives_in_every_row_and_equal_labels_witness:
  "shape ex_features = [2, 2, 1] \<and> prod_shape (shape ex_labels_same) = 2 \<and> (0::nat) < 2
   \<and> contrast_mode default_hparams = ''all''
   \<and> (\<exists>m w m' lm' s. outcome (select_mask 2 (Some ex_labels_same) None) = Inr (m, w)
            \<and> outcome (mask_out_self m (anchor_count_of default_hparams) 2) = Inr (m', lm')
            \<and> outcome (sum_axis1 m') = Inr s
            \<and> (\<forall>i<anchor_count_of default_hparams * 2. \<exists>c\<ge>1. entry s 0 i = Fin c))
   \<and> temperature default_hparams \<noteq> 0 \<and> base_temperature default_hparams \<noteq> 0
   \<and> flat ex_labels_same 1 = flat ex_labels_same 0
   \<and> outcome (construct default_hparams ex_features (Some ex_labels_same) None) = Inr NaN"
  using positives_in_every_row_and_equal_labels [of ex_features 2 1 ex_labels_same default_hparams]
  by (simp add: ex_features_def ex_labels_same_def default_hparams_def)

text \<open>
  C9 as stated fails in its second half: with one sample every anchor row has one
  positive, and the loss is NaN.
\<close>

theorem equal_labels_loss_not_finite:
  "(\<exists>m w m' lm' s. outcome (select_mask 1 (Some ex_labels1) None) = Inr (m, w)
       \<and> outcome (mask_out_self m 2 2) = Inr (m', lm')
       \<and> outcome (sum_axis1 m') = Inr s
       \<and> entry s 0 0 = Fin 1 \<and> entry s 0 1 = Fin 1)
   \<and> outcome (construct default_hparams ex_features1 (Some ex_labels1) None) = Inr NaN
   \<and> \<not> is_finite NaN"
proof -
  have "outcome (construct default_hparams ex_features1 (Some ex_labels1) None) = Inr NaN"
    by (simp add: construct_def ex_features1_def ex_labels1_def default_hparams_def check_features_def
      as3_def select_mask_def eye_def select_anchor_def unbind1_def cat0_def vstack_def
      view_column_def upt_2 dot_contrast_def transpose_t_def matmul_def pointwise_def
      stabilise_def max_axis1_def broadcast2_def loss_of_logits_def mask_out_self_def tile_def
      reduce_loss_def sum_axis1_def view2_def mean_def row_max_def lessThan_Suc numeral_2_eq_2
      of_bool_f_def minus_fval_def)
  moreover have "\<exists>m w m' lm' s. outcome (select_mask 1 (Some ex_labels1) None) = Inr (m, w)
       \<and> outcome (mask_out_self m 2 2) = Inr (m', lm')
       \<and> outcome (sum_axis1 m') = Inr s
       \<and> entry s 0 0 = Fin 1 \<and> entry s 0 1 = Fin 1"
    by (simp add: select_mask_labels ex_labels1_def mask_out_self_outcome sum_axis1_def
      lessThan_Suc numeral_2_eq_2 ref_exclusion_def of_bool_f_def)
  ultimately show ?thesis
    by simp
qed

end
